theory Spec2Isabelle
  imports Complex_Main "HOL-Library.AList"
begin

section \<open>Python strings\<close>

text \<open>
  A Python \<^verbatim>\<open>str\<close> is modelled as a \<^typ>\<open>string\<close>: a list of characters with code points
  below 256.  Python floats are modelled as exact reals, so every \<^verbatim>\<open>round\<close> of the
  source is an explicit rounding step of the model.
\<close>

definition whitespace_chars :: "char list" where
  "whitespace_chars =
     [CHR 0x09, CHR 0x0A, CHR 0x0B, CHR 0x0C, CHR 0x0D, CHR 0x1C, CHR 0x1D, CHR 0x1E,
      CHR 0x1F, CHR 0x20, CHR 0x85, CHR 0xA0]"

text \<open>\<^verbatim>\<open>str.isspace\<close> on one character; the same set drives \<^verbatim>\<open>strip\<close>, \<^verbatim>\<open>split\<close> and \<^verbatim>\<open>\s\<close>.\<close>

definition py_isspace :: "char \<Rightarrow> bool" where
  "py_isspace c = (c \<in> set whitespace_chars)"

text \<open>\<^verbatim>\<open>s.strip()\<close>\<close>

definition py_strip :: "string \<Rightarrow> string" where
  "py_strip s = rev (dropWhile py_isspace (rev (dropWhile py_isspace s)))"

text \<open>\<^verbatim>\<open>s.split()\<close>: the maximal runs of non-whitespace characters, in order.
  The first argument is the word read so far.\<close>

fun split_from :: "string \<Rightarrow> string \<Rightarrow> string list" where
  "split_from cur [] = (if cur = [] then [] else [cur])"
| "split_from cur (c # cs) =
     (if py_isspace c then (if cur = [] then split_from [] cs else cur # split_from [] cs)
      else split_from (cur @ [c]) cs)"

definition py_split :: "string \<Rightarrow> string list" where
  "py_split s = split_from [] s"

text \<open>\<^verbatim>\<open>sep.join(xs)\<close>\<close>

fun py_join :: "string \<Rightarrow> string list \<Rightarrow> string" where
  "py_join sep [] = []"
| "py_join sep [x] = x"
| "py_join sep (x # y # ys) = x @ sep @ py_join sep (y # ys)"

text \<open>\<^verbatim>\<open>range(0, n, step)\<close> for a positive step: its length is \<open>(n + step - 1) div step\<close>.\<close>

definition py_range_step :: "nat \<Rightarrow> nat \<Rightarrow> nat list" where
  "py_range_step n step = map (\<lambda>k. k * step) [0 ..< (n + step - 1) div step]"

text \<open>\<^verbatim>\<open>xs[i:j]\<close> for \<open>0 \<le> i \<le> j\<close>\<close>

definition py_slice :: "'a list \<Rightarrow> nat \<Rightarrow> nat \<Rightarrow> 'a list" where
  "py_slice xs i j = take (j - i) (drop i xs)"

section \<open>Exceptions\<close>

text \<open>An exception that is not an HTTP error, with the message that \<^verbatim>\<open>str(exc)\<close> gives.\<close>

datatype exn = Exception string

fun str_exn :: "exn \<Rightarrow> string" where
  "str_exn (Exception m) = m"

section \<open>Numbers\<close>

text \<open>Rounding to the nearest integer, a tie going to the even neighbour.\<close>

definition round_half_even :: "real \<Rightarrow> int" where
  "round_half_even x =
     (let f = \<lfloor>x\<rfloor>; d = x - of_int f in
      if d < 1 / 2 then f else if 1 / 2 < d then f + 1 else if even f then f else f + 1)"

text \<open>\<^verbatim>\<open>round(x, n)\<close> for \<open>n \<ge> 0\<close> decimals.\<close>

definition py_round :: "real \<Rightarrow> nat \<Rightarrow> real" where
  "py_round x n = of_int (round_half_even (x * 10 ^ n)) / 10 ^ n"

text \<open>\<^verbatim>\<open>np.mean\<close> of a non-empty list (numpy's answer for the empty list is \<^verbatim>\<open>nan\<close>, which is no
  real; the callers below keep the empty list away from it).\<close>

definition np_mean :: "real list \<Rightarrow> real" where
  "np_mean xs = sum_list xs / real (length xs)"

text \<open>\<^verbatim>\<open>sorted(xs, key=key, reverse=True)\<close>: the list is reversed, sorted by a stable
  ascending sort and reversed again.\<close>

definition py_sorted_reverse :: "('a \<Rightarrow> real) \<Rightarrow> 'a list \<Rightarrow> 'a list" where
  "py_sorted_reverse key xs = rev (sort_key key (rev xs))"

text \<open>\<^verbatim>\<open>dict(kvs)\<close> read through \<^verbatim>\<open>get\<close> only: a later pair overrides an earlier one.\<close>

definition py_dict :: "('k \<times> 'v) list \<Rightarrow> ('k \<rightharpoonup> 'v)" where
  "py_dict kvs = map_of (rev kvs)"

definition dict_get :: "('k \<rightharpoonup> 'v) \<Rightarrow> 'k \<Rightarrow> 'v \<Rightarrow> 'v" where
  "dict_get d k dflt = (case d k of None \<Rightarrow> dflt | Some v \<Rightarrow> v)"

section \<open>The collaborators\<close>

text \<open>
  The pretrained models, the LLM endpoint, the image fetch and the clocks are parameters
  of the model.  Each is a function of its arguments that returns a value or raises, and
  every use of one is recorded in the list of calls that a function returns beside its
  value.
\<close>

record clf_result =
  labels :: "string list"
  scores :: "real list"

datatype image = Image "nat list"

text \<open>The three values that \<^verbatim>\<open>generate_explanation\<close> writes into its fixed prompt template.\<close>

record llm_prompt =
  prompt_score :: real
  prompt_tactics :: string
  prompt_text :: string

record env =
  classifier :: "string \<Rightarrow> string list \<Rightarrow> bool \<Rightarrow> exn + clf_result"
  ANTHROPIC_API_KEY :: string
  messages_create :: "string \<Rightarrow> llm_prompt \<Rightarrow> exn + string"
  clip_available :: bool
  fetch_image :: "string \<Rightarrow> exn + image"
  clip_probs :: "string list \<Rightarrow> image \<Rightarrow> exn + real list"
  elapsed :: real
  timestamp :: string

datatype call =
    ClassifierCall string bool
  | LLMCall llm_prompt
  | FetchCall string
  | ClipCall "string list"

section \<open>model.py: the detector\<close>

definition TACTIC_LABELS :: "string list" where
  "TACTIC_LABELS =
     [''Fear & Urgency'', ''False Social Proof'', ''Identity Attack'',
      ''Emotional Hijacking'', ''Scarcity Illusion'', ''Gaslighting'']"

definition TACTIC_DESCRIPTIONS :: "(string \<times> string) list" where
  "TACTIC_DESCRIPTIONS =
     [(''Fear & Urgency'', ''Creates panic or time pressure to bypass rational thinking''),
      (''False Social Proof'', ''Uses fake or exaggerated popularity to influence behavior''),
      (''Identity Attack'', ''Targets personal identity to shame or manipulate''),
      (''Emotional Hijacking'', ''Overloads emotions to override logical decision-making''),
      (''Scarcity Illusion'', ''Fabricates limited availability to trigger impulsive action''),
      (''Gaslighting'', ''Contradicts reality to make the reader doubt their perception'')]"

definition TACTIC_COLORS :: "(string \<times> string) list" where
  "TACTIC_COLORS =
     [(''Fear & Urgency'', ''#ff4d6a''), (''False Social Proof'', ''#ffb547''),
      (''Identity Attack'', ''#a78bfa''), (''Emotional Hijacking'', ''#f472b6''),
      (''Scarcity Illusion'', ''#38bdf8''), (''Gaslighting'', ''#fb923c'')]"

text \<open>The dictionary \<^verbatim>\<open>analyze_text\<close> returns; the two dictionaries inside it keep their
  insertion order.\<close>

record analysis =
  overall_score :: real
  severity :: string
  severity_color :: string
  tactic_scores :: "(string \<times> real) list"
  tactic_colors :: "(string \<times> string) list"
  top_tactics :: "string list"
  tactic_descriptions :: "(string \<times> string) list"
  chunks_analyzed :: nat
  word_count :: nat

definition empty_result :: analysis where
  "empty_result =
     \<lparr>overall_score = 0, severity = ''LOW'', severity_color = ''#22c55e'',
      tactic_scores = map (\<lambda>k. (k, 0)) TACTIC_LABELS, tactic_colors = TACTIC_COLORS,
      top_tactics = [], tactic_descriptions = TACTIC_DESCRIPTIONS,
      chunks_analyzed = 0, word_count = 0\<rparr>"

text \<open>
  \<^verbatim>\<open>_chunk_text(text, size)\<close>.  \<^verbatim>\<open>range\<close> raises \<^verbatim>\<open>ValueError\<close> on a zero step and is empty on a
  negative one; the list of chunks that survive the filter is replaced by \<^verbatim>\<open>[text]\<close> when
  it is empty.
\<close>

definition chunk_text :: "string \<Rightarrow> int \<Rightarrow> exn + string list" where
  "chunk_text text sz =
     (let words = py_split text in
      if sz = 0 then Inl (Exception ''range() arg 3 must not be zero'')
      else
        let starts = (if sz < 0 then [] else py_range_step (length words) (nat sz));
            chunks = map (\<lambda>i. py_join '' '' (py_slice words i (i + nat sz))) starts;
            kept = filter (\<lambda>c. py_strip c \<noteq> []) chunks
        in Inr (if kept \<noteq> [] then kept else [text]))"

text \<open>The body of the loop over the chunks: one multi-label classification, its labels and
  scores zipped into a dictionary.\<close>

definition chunk_scores :: "env \<Rightarrow> string \<Rightarrow> exn + (string \<rightharpoonup> real)" where
  "chunk_scores e chunk =
     (case classifier e chunk TACTIC_LABELS True of
        Inl x \<Rightarrow> Inl x
      | Inr result \<Rightarrow> Inr (py_dict (zip (labels result) (scores result))))"

text \<open>The loop: it stops at the first chunk whose classification raises.\<close>

fun classify_chunks :: "env \<Rightarrow> string list \<Rightarrow> (exn + (string \<rightharpoonup> real) list) \<times> call list" where
  "classify_chunks e [] = (Inr [], [])"
| "classify_chunks e (chunk # rest) =
     (case chunk_scores e chunk of
        Inl x \<Rightarrow> (Inl x, [ClassifierCall chunk True])
      | Inr s \<Rightarrow>
          (case classify_chunks e rest of
             (Inl x, calls) \<Rightarrow> (Inl x, ClassifierCall chunk True # calls)
           | (Inr all_scores, calls) \<Rightarrow> (Inr (s # all_scores), ClassifierCall chunk True # calls)))"

text \<open>The per-tactic averages across the chunks, keyed in the order of the labels.\<close>

definition tactic_means :: "(string \<rightharpoonup> real) list \<Rightarrow> (string \<times> real) list" where
  "tactic_means all_scores =
     map (\<lambda>label. (label, np_mean (map (\<lambda>s. dict_get s label 0) all_scores))) TACTIC_LABELS"

definition severity_of :: "real \<Rightarrow> string \<times> string" where
  "severity_of overall =
     (if 70 \<le> overall then (''HIGH'', ''#ef4444'')
      else if 40 \<le> overall then (''MODERATE'', ''#f59e0b'')
      else (''LOW'', ''#22c55e''))"

text \<open>
  \<^verbatim>\<open>analyze_text\<close>.  An exception of the classifier is not caught.  The list of chunks is
  never empty, so neither is \<^verbatim>\<open>all_scores\<close>; the branch that guards \<open>np_mean\<close> stands for the
  \<^verbatim>\<open>nan\<close> the source would compute there.
\<close>

definition analyze_text :: "env \<Rightarrow> string \<Rightarrow> (exn + analysis) \<times> call list" where
  "analyze_text e text =
     (if text = [] \<or> length (py_strip text) < 10 then (Inr empty_result, [])
      else
        case chunk_text text 400 of
          Inl x \<Rightarrow> (Inl x, [])
        | Inr chunks \<Rightarrow>
            (case classify_chunks e (take 5 chunks) of
               (Inl x, calls) \<Rightarrow> (Inl x, calls)
             | (Inr all_scores, calls) \<Rightarrow>
                 if all_scores = [] then (Inl (Exception ''Mean of empty slice.''), calls)
                 else
                   let tactic_scores' = tactic_means all_scores;
                       raw = np_mean (map snd tactic_scores');
                       overall = min 100 (raw * 180);
                       sorted_tactics = py_sorted_reverse snd tactic_scores';
                       top_tactics' = map fst (filter (\<lambda>(t, s). 0.25 < s) sorted_tactics);
                       (severity', sev_color) = severity_of overall
                   in (Inr \<lparr>overall_score = py_round overall 1,
                             severity = severity',
                             severity_color = sev_color,
                             tactic_scores = map (\<lambda>(k, v). (k, py_round (v * 100) 1)) tactic_scores',
                             tactic_colors = TACTIC_COLORS,
                             top_tactics = take 3 top_tactics',
                             tactic_descriptions = TACTIC_DESCRIPTIONS,
                             chunks_analyzed = length (take 5 chunks),
                             word_count = length (py_split text)\<rparr>, calls)))"

subsection \<open>The sentence heatmap\<close>

text \<open>\<^verbatim>\<open>re.split(r'(?<=[.!?])\s+', s)\<close>: a separator is a maximal run of whitespace that
  follows one of the three marks.  The first argument is the piece read so far.\<close>

function re_split_from :: "string \<Rightarrow> string \<Rightarrow> string list" where
  "re_split_from cur [] = [cur]"
| "re_split_from cur (c # cs) =
     (if py_isspace c \<and> cur \<noteq> [] \<and> last cur \<in> set ''.!?''
      then cur # re_split_from [] (dropWhile py_isspace cs)
      else re_split_from (cur @ [c]) cs)"
  by pat_completeness auto
termination
  by (relation "measure (\<lambda>(cur, s). length s)")
     (auto simp: length_dropWhile_le less_Suc_eq_le)

definition re_split_sentences :: "string \<Rightarrow> string list" where
  "re_split_sentences s = re_split_from [] s"

record highlight =
  h_text :: string
  h_score :: real
  h_tactic :: "string option"

text \<open>The body of the loop over the sentences.  Whatever the single-label classification
  raises, an empty list of scores or labels included, is caught.\<close>

definition highlight_sentence :: "env \<Rightarrow> string \<Rightarrow> highlight \<times> call list" where
  "highlight_sentence e sent =
     (if length (py_split sent) < 4 then (\<lparr>h_text = sent, h_score = 0, h_tactic = None\<rparr>, [])
      else
        (case classifier e sent TACTIC_LABELS False of
           Inl x \<Rightarrow> \<lparr>h_text = sent, h_score = 0, h_tactic = None\<rparr>
         | Inr res \<Rightarrow>
             (case (scores res, labels res) of
                (top_score # _, top_label # _) \<Rightarrow>
                  (let scaled = min 1 (top_score * 1.8) in
                   \<lparr>h_text = sent, h_score = py_round scaled 3,
                    h_tactic = (if 0.3 < top_score then Some top_label else None)\<rparr>)
              | _ \<Rightarrow> \<lparr>h_text = sent, h_score = 0, h_tactic = None\<rparr>),
         [ClassifierCall sent False]))"

definition highlight_sentences :: "env \<Rightarrow> string \<Rightarrow> highlight list \<times> call list" where
  "highlight_sentences e text =
     (let sentences = re_split_sentences (py_strip text);
          results = map (highlight_sentence e) (take 20 sentences)
      in (map fst results, concat (map snd results)))"


section \<open>llm_analyzer.py\<close>

record explanation =
  success :: bool
  full_explanation :: string
  sections :: "(string \<times> string) list"

text \<open>
  \<^verbatim>\<open>_get_client\<close>.  The module's global \<^verbatim>\<open>_client\<close> is \<open>None\<close> or a client, which is
  modelled by the key it was built with (building one does not raise); the function
  returns the client and the new value of the global.
\<close>

definition get_client :: "env \<Rightarrow> string option \<Rightarrow> string option \<times> string option" where
  "get_client e client =
     (case client of
        None \<Rightarrow>
          (let api_key = ANTHROPIC_API_KEY e in
           if api_key = [] then (None, None) else (Some api_key, Some api_key))
      | Some c \<Rightarrow> (Some c, Some c))"

definition headings :: "string list" where
  "headings =
     [''SUMMARY'', ''KEY TACTICS'', ''PSYCHOLOGICAL MECHANISM'',
      ''WHAT TO WATCH OUT FOR'', ''VERDICT'']"

text \<open>\<^verbatim>\<open>str.upper\<close>, on the letters a to z.  It is only used to compare the start of a line
  with the headings, which no other character below 256 upper-cases into.\<close>

definition py_upper :: "string \<Rightarrow> string" where
  "py_upper s =
     map (\<lambda>c. case map_of (zip ''abcdefghijklmnopqrstuvwxyz'' ''ABCDEFGHIJKLMNOPQRSTUVWXYZ'') c of
                 Some u \<Rightarrow> u
               | None \<Rightarrow> c) s"

definition py_startswith :: "string \<Rightarrow> string \<Rightarrow> bool" where
  "py_startswith s p = (take (length p) s = p)"

text \<open>\<^verbatim>\<open>str.splitlines\<close>: a line ends at a line boundary, \<^verbatim>\<open>\r\n\<close> counting as one, and an
  empty last line is not kept.  The first argument is the line read so far.\<close>

definition line_boundaries :: "char list" where
  "line_boundaries = [CHR 0x0A, CHR 0x0B, CHR 0x0C, CHR 0x0D, CHR 0x1C, CHR 0x1D, CHR 0x1E, CHR 0x85]"

fun splitlines_from :: "string \<Rightarrow> string \<Rightarrow> string list" where
  "splitlines_from cur [] = (if cur = [] then [] else [cur])"
| "splitlines_from cur [c] =
     (if c \<in> set line_boundaries then [cur] else [cur @ [c]])"
| "splitlines_from cur (c # d # cs) =
     (if c = CHR 0x0D \<and> d = CHR 0x0A then cur # splitlines_from [] cs
      else if c \<in> set line_boundaries then cur # splitlines_from [] (d # cs)
      else splitlines_from (cur @ [c]) (d # cs))"

definition py_splitlines :: "string \<Rightarrow> string list" where
  "py_splitlines s = splitlines_from [] s"

text \<open>\<^verbatim>\<open>next((h for h in headings if stripped.upper().startswith(h)), None)\<close>\<close>

definition match_heading :: "string \<Rightarrow> string option" where
  "match_heading stripped = find (\<lambda>h. py_startswith (py_upper stripped) h) headings"

text \<open>\<^verbatim>\<open>sections[current] = " ".join(buf).strip()\<close>, when a section is open.\<close>

definition close_section ::
  "(string \<times> string) list \<Rightarrow> string option \<Rightarrow> string list \<Rightarrow> (string \<times> string) list" where
  "close_section secs current buf =
     (case current of
        None \<Rightarrow> secs
      | Some h \<Rightarrow> AList.update h (py_strip (py_join '' '' buf)) secs)"

text \<open>One turn of the loop of \<^verbatim>\<open>_parse_sections\<close> over the state
  \<^verbatim>\<open>(sections, current, buf)\<close>.\<close>

fun parse_line ::
  "(string \<times> string) list \<times> string option \<times> string list \<Rightarrow> string
     \<Rightarrow> (string \<times> string) list \<times> string option \<times> string list" where
  "parse_line (secs, current, buf) line =
     (let stripped = py_strip line in
      case match_heading stripped of
        Some matched \<Rightarrow> (close_section secs current buf, Some matched, [])
      | None \<Rightarrow>
          if current \<noteq> None \<and> stripped \<noteq> [] then (secs, current, buf @ [stripped])
          else (secs, current, buf))"

definition parse_lines :: "string list \<Rightarrow> (string \<times> string) list" where
  "parse_lines ls =
     (case foldl parse_line ([], None, []) ls of
        (secs, current, buf) \<Rightarrow> close_section secs current buf)"

definition parse_sections :: "string \<Rightarrow> (string \<times> string) list" where
  "parse_sections text = parse_lines (py_splitlines text)"

text \<open>
  \<^verbatim>\<open>generate_explanation\<close>, with the value of \<^verbatim>\<open>_client\<close> before the call; it returns the
  explanation and the value of \<^verbatim>\<open>_client\<close> after it.  Whatever the request to the LLM or
  the reading of its reply raises is caught.
\<close>

text \<open>What the prompt is built from: the score, the top tactics joined by commas or
  \<^verbatim>\<open>none\<close>, and the first 1500 characters of the text.\<close>

definition build_prompt :: "string \<Rightarrow> analysis \<Rightarrow> llm_prompt" where
  "build_prompt text a =
     (let score = overall_score a;
          joined = py_join '', '' (top_tactics a);
          tactic_summary = (if joined = [] then ''none'' else joined)
      in \<lparr>prompt_score = score, prompt_tactics = tactic_summary,
          prompt_text = take 1500 text\<rparr>)"

definition generate_explanation ::
  "env \<Rightarrow> string option \<Rightarrow> string \<Rightarrow> analysis \<Rightarrow> (explanation \<times> string option) \<times> call list" where
  "generate_explanation e client text a =
     (case get_client e client of
        (None, client') \<Rightarrow>
          ((\<lparr>success = False,
             full_explanation =
               ''Set ANTHROPIC_API_KEY environment variable to enable LLM analysis.'',
             sections = []\<rparr>, client'), [])
      | (Some c, client') \<Rightarrow>
          (let prompt = build_prompt text a in
           (((case messages_create e c prompt of
                Inr reply \<Rightarrow>
                  \<lparr>success = True, full_explanation = reply,
                   sections = parse_sections reply\<rparr>
              | Inl exc \<Rightarrow>
                  \<lparr>success = False, full_explanation = ''LLM error: '' @ str_exn exc,
                   sections = []\<rparr>), client'),
            [LLMCall prompt])))"

section \<open>multimodal.py\<close>

text \<open>The dictionary of a multimodal analysis: \<^verbatim>\<open>{"available": False}\<close> with or without an
  \<^verbatim>\<open>"error"\<close>, the result of the caption mode, or the result of the clickbait mode.\<close>

datatype multimodal =
    Unavailable "string option"
  | CaptionResult real real string
  | ClickbaitResult real "(string \<times> real) list"

text \<open>\<^verbatim>\<open>analyze_image_caption\<close>; \<^verbatim>\<open>probs[0]\<close> and \<^verbatim>\<open>probs[1]\<close> raise on a shorter tensor, inside
  the \<^verbatim>\<open>try\<close>.\<close>

definition analyze_image_caption :: "env \<Rightarrow> string \<Rightarrow> string \<Rightarrow> multimodal \<times> call list" where
  "analyze_image_caption e image_url caption =
     (if \<not> clip_available e \<or> image_url = [] then (Unavailable None, [])
      else
        case fetch_image e image_url of
          Inl exc \<Rightarrow> (Unavailable (Some (str_exn exc)), [FetchCall image_url])
        | Inr img \<Rightarrow>
            (let texts = [caption, ''image completely unrelated to: '' @ caption] in
             ((case clip_probs e texts img of
                 Inl exc \<Rightarrow> Unavailable (Some (str_exn exc))
               | Inr probs \<Rightarrow>
                   (case probs of
                      p0 # p1 # _ \<Rightarrow>
                        (let match_pct = py_round (p0 * 100) 1;
                             mismatch_pct = py_round (p1 * 100) 1;
                             verdict = (if 60 < mismatch_pct then ''HIGH MISMATCH''
                                        else if 35 < mismatch_pct then ''MODERATE''
                                        else ''ALIGNED'')
                         in CaptionResult match_pct mismatch_pct verdict)
                    | _ \<Rightarrow> Unavailable (Some ''index out of range''))),
              [FetchCall image_url, ClipCall texts])))"

definition clickbait_labels :: "string list" where
  "clickbait_labels =
     [''shocking or sensational image designed to provoke outrage'',
      ''exaggerated facial expression of shock or disbelief'',
      ''misleading or deceptive visual thumbnail'',
      ''normal neutral informative image'']"

definition analyze_clickbait :: "env \<Rightarrow> string \<Rightarrow> multimodal \<times> call list" where
  "analyze_clickbait e image_url =
     (if \<not> clip_available e \<or> image_url = [] then (Unavailable None, [])
      else
        case fetch_image e image_url of
          Inl exc \<Rightarrow> (Unavailable (Some (str_exn exc)), [FetchCall image_url])
        | Inr img \<Rightarrow>
            ((case clip_probs e clickbait_labels img of
                Inl exc \<Rightarrow> Unavailable (Some (str_exn exc))
              | Inr probs \<Rightarrow>
                  (let clickbait_score = py_round (sum_list (take 3 probs) * 100) 1 in
                   ClickbaitResult clickbait_score
                     (map (\<lambda>(label, p). (label, py_round (p * 100) 1))
                        (zip clickbait_labels probs)))),
             [FetchCall image_url, ClipCall clickbait_labels]))"

section \<open>report_gen.py\<close>

text \<open>
  The report is the list of flowables handed to the document builder, which renders it
  into the PDF and is taken not to raise.  A paragraph keeps its text, the name of its
  style and its text colour; a table keeps its rows; the measures of the layout are left
  out.  Characters above 255 in the fixed texts are written as their UTF-8 bytes.  The
  analysis and the explanation always come from \<^verbatim>\<open>analyze_text\<close> and \<^verbatim>\<open>generate_explanation\<close>,
  so the defaults of the \<^verbatim>\<open>get\<close> calls are never used.
\<close>

datatype para = Para string string string

datatype cell = ParagraphCell para | TextCell string

datatype flowable =
    Paragraph para
  | Spacer
  | HRFlowable
  | Table "cell list list"

definition C_DARK :: string where "C_DARK = ''#0f1628''"
definition C_ACCENT :: string where "C_ACCENT = ''#4f7cff''"
definition C_RED :: string where "C_RED = ''#ef4444''"
definition C_AMBER :: string where "C_AMBER = ''#f59e0b''"
definition C_GREEN :: string where "C_GREEN = ''#22c55e''"
definition C_GRAY :: string where "C_GRAY = ''#64748b''"

text \<open>Decimal digits of a natural number, \<^verbatim>\<open>str(n)\<close>.\<close>

fun str_nat :: "nat \<Rightarrow> string" where
  "str_nat n =
     (if n < 10 then [char_of (48 + n)] else str_nat (n div 10) @ [char_of (48 + n mod 10)])"

text \<open>\<^verbatim>\<open>f"{x:.1f}"\<close>; it is also what \<^verbatim>\<open>f"{x}"\<close> prints for a float with one decimal,
  which the overall score is.\<close>

definition format_1f :: "real \<Rightarrow> string" where
  "format_1f x =
     (let t = nat \<bar>round_half_even (x * 10)\<bar> in
      (if x < 0 then ''-'' else []) @ str_nat (t div 10) @ ''.'' @ str_nat (t mod 10))"

definition risk_of :: "real \<Rightarrow> string" where
  "risk_of val = (if 60 \<le> val then ''HIGH'' else if 35 \<le> val then ''MODERATE'' else ''LOW'')"

text \<open>The rows of the tactic table: the header, then one row for each item of
  \<^verbatim>\<open>tactic_scores\<close>.\<close>

definition tactic_rows :: "(string \<times> real) list \<Rightarrow> cell list list" where
  "tactic_rows scores' =
     [TextCell ''Tactic'', TextCell ''Score'', TextCell ''Risk'']
     # map (\<lambda>(name, val). [TextCell name, TextCell (format_1f val @ ''/100''), TextCell (risk_of val)])
         scores'"

text \<open>The block under \<^verbatim>\<open>if explanation.get("success")\<close>.\<close>

definition explanation_block :: "explanation \<Rightarrow> flowable list" where
  "explanation_block ex =
     (if success ex then
        [Paragraph (Para ''AI Analysis (Claude)'' ''SH2'' C_DARK)]
        @ concat (map (\<lambda>(heading, content).
                    if content \<noteq> [] then
                      [Paragraph (Para heading (''sec_'' @ heading) C_ACCENT),
                       Paragraph (Para content ''body'' ''#374151'')]
                    else []) (sections ex))
        @ (if sections ex = [] \<and> full_explanation ex \<noteq> []
           then [Paragraph (Para (full_explanation ex) ''body'' ''#374151'')] else [])
        @ [Spacer]
      else [])"

definition ellipsis :: string where
  "ellipsis = [CHR 0xE2, CHR 0x80, CHR 0xA6]"

definition em_dash :: string where
  "em_dash = [CHR 0xE2, CHR 0x80, CHR 0x94]"

definition middle_dot :: string where
  "middle_dot = [CHR 0xB7]"

definition generate_report :: "env \<Rightarrow> string \<Rightarrow> analysis \<Rightarrow> explanation \<Rightarrow> string \<Rightarrow> flowable list" where
  "generate_report e text a ex url =
     (let score = overall_score a;
          severity' = severity a;
          sev_col = (if severity' = ''HIGH'' then C_RED
                     else if severity' = ''MODERATE'' then C_AMBER else C_GREEN);
          n_tact = length (top_tactics a);
          ov_data =
            [[ParagraphCell (Para ''MANIPULATION SCORE'' ''th'' C_GRAY),
              ParagraphCell (Para ''SEVERITY'' ''th'' C_GRAY),
              ParagraphCell (Para ''TACTICS FOUND'' ''th'' C_GRAY)],
             [ParagraphCell (Para (format_1f score @ ''/100'') ''tv'' sev_col),
              ParagraphCell (Para severity' ''tv'' sev_col),
              ParagraphCell (Para (str_nat n_tact) ''tv2'' C_ACCENT)]]
      in
        [Paragraph (Para (''PsychoGuard AI '' @ em_dash @ '' Manipulation Analysis Report'') ''H'' C_DARK),
         Paragraph (Para (''Generated '' @ timestamp e) ''Sub'' C_GRAY),
         HRFlowable, Spacer,
         Table ov_data, Spacer,
         Paragraph (Para ''Tactic Breakdown'' ''SH'' C_DARK),
         Table (tactic_rows (tactic_scores a)), Spacer]
        @ explanation_block ex
        @ (if text \<noteq> [] then
             [HRFlowable, Spacer,
              Paragraph (Para ''Analysed Content (excerpt)'' ''SH3'' C_DARK),
              Paragraph (Para (take 800 text @ (if 800 < length text then ellipsis else []))
                           ''exc'' C_GRAY)]
           else [])
        @ (if url \<noteq> [] then [Spacer, Paragraph (Para (''Source: '' @ url) ''url'' C_GRAY)] else [])
        @ [Spacer, HRFlowable,
           Paragraph (Para (''PsychoGuard AI  '' @ middle_dot @ ''  Protecting minds from digital manipulation  ''
                            @ middle_dot @ ''  For research & educational use'') ''foot'' C_GRAY)])"

section \<open>app.py\<close>

text \<open>A validated \<^verbatim>\<open>AnalyzeRequest\<close>: the text is a string, the optional fields may be null.\<close>

record analyze_request =
  req_text :: string
  req_url :: "string option"
  req_image_url :: "string option"
  req_caption :: "string option"
  include_explanation :: bool
  include_highlights :: bool

text \<open>What a handler does: it raises an HTTP error, lets an exception of a collaborator
  through, or returns its response.\<close>

datatype 'a outcome = HTTPException nat string | Raised exn | Returned 'a

text \<open>An optional string read as a condition or as \<^verbatim>\<open>x or ""\<close>.\<close>

definition or_empty :: "string option \<Rightarrow> string" where
  "or_empty x = (case x of None \<Rightarrow> [] | Some s \<Rightarrow> s)"

record analyze_response =
  resp_analysis :: analysis
  resp_highlights :: "highlight list"
  resp_explanation :: explanation
  resp_multimodal :: multimodal
  processing_time :: real

text \<open>Every handler takes the value of the LLM module's \<^verbatim>\<open>_client\<close> and returns it beside
  its outcome, and returns the calls it made to the collaborators.\<close>

definition analyze ::
  "env \<Rightarrow> string option \<Rightarrow> analyze_request
     \<Rightarrow> (analyze_response outcome \<times> string option) \<times> call list" where
  "analyze e client req =
     (if req_text req = [] \<or> length (py_strip (req_text req)) < 10
      then ((HTTPException 400 ''Text must be at least 10 characters.'', client), [])
      else
        case analyze_text e (req_text req) of
          (Inl exc, calls1) \<Rightarrow> ((Raised exc, client), calls1)
        | (Inr a, calls1) \<Rightarrow>
            (let (highlights, calls2) =
                   (if include_highlights req then highlight_sentences e (req_text req)
                    else ([], []));
                 ((ex, client'), calls3) =
                   (if include_explanation req then generate_explanation e client (req_text req) a
                    else ((\<lparr>success = False, full_explanation = ''LLM disabled'',
                            sections = []\<rparr>, client), []));
                 (multi, calls4) =
                   (if or_empty (req_image_url req) \<noteq> [] then
                      (if or_empty (req_caption req) \<noteq> []
                       then analyze_image_caption e (or_empty (req_image_url req))
                              (or_empty (req_caption req))
                       else analyze_clickbait e (or_empty (req_image_url req)))
                    else (Unavailable None, []))
             in ((Returned \<lparr>resp_analysis = a, resp_highlights = highlights,
                            resp_explanation = ex, resp_multimodal = multi,
                            processing_time = py_round (elapsed e) 2\<rparr>, client'),
                 calls1 @ calls2 @ calls3 @ calls4)))"

record quick_response =
  quick_overall_score :: real
  quick_severity :: string
  quick_severity_color :: string
  quick_top_tactics :: "string list"

definition quick_score ::
  "env \<Rightarrow> string option \<Rightarrow> analyze_request
     \<Rightarrow> (quick_response outcome \<times> string option) \<times> call list" where
  "quick_score e client req =
     (case analyze_text e (req_text req) of
        (Inl exc, calls) \<Rightarrow> ((Raised exc, client), calls)
      | (Inr a, calls) \<Rightarrow>
          ((Returned \<lparr>quick_overall_score = overall_score a, quick_severity = severity a,
                       quick_severity_color = severity_color a,
                       quick_top_tactics = top_tactics a\<rparr>, client), calls))"

text \<open>The streaming response of \<^verbatim>\<open>/report\<close>: the document, its media type and its
  \<^verbatim>\<open>Content-Disposition\<close> header.\<close>

record report_response =
  pdf_story :: "flowable list"
  media_type :: string
  content_disposition :: string

definition download_report ::
  "env \<Rightarrow> string option \<Rightarrow> analyze_request
     \<Rightarrow> (report_response outcome \<times> string option) \<times> call list" where
  "download_report e client req =
     (if req_text req = [] \<or> length (py_strip (req_text req)) < 10
      then ((HTTPException 400 ''Text too short.'', client), [])
      else
        case analyze_text e (req_text req) of
          (Inl exc, calls1) \<Rightarrow> ((Raised exc, client), calls1)
        | (Inr a, calls1) \<Rightarrow>
            (case generate_explanation e client (req_text req) a of
               ((ex, client'), calls2) \<Rightarrow>
                 ((Returned \<lparr>pdf_story = generate_report e (req_text req) a ex (or_empty (req_url req)),
                              media_type = ''application/pdf'',
                              content_disposition =
                                ''attachment; filename='' @ [CHR 0x22] @ ''psychoguard-report.pdf'' @ [CHR 0x22]\<rparr>, client'),
                  calls1 @ calls2)))"

section \<open>Notions used in the statements\<close>

text \<open>A word: a non-empty string without whitespace.\<close>

definition is_word :: "string \<Rightarrow> bool" where
  "is_word w = (w \<noteq> [] \<and> (\<forall>c \<in> set w. \<not> py_isspace c))"

text \<open>The slices \<^verbatim>\<open>words[i:i+s]\<close> that \<^verbatim>\<open>_chunk_text\<close> joins, for a positive size \<open>s\<close>.\<close>

definition word_slices :: "nat \<Rightarrow> string list \<Rightarrow> string list list" where
  "word_slices s ws =
     map (\<lambda>k. py_slice ws (k * s) (k * s + s)) [0 ..< (length ws + s - 1) div s]"

text \<open>The chunks that \<^verbatim>\<open>analyze_text\<close> classifies: the first five.\<close>

definition classified_chunks :: "string \<Rightarrow> string list" where
  "classified_chunks text = take 5 (case chunk_text text 400 of Inl _ \<Rightarrow> [] | Inr chunks \<Rightarrow> chunks)"

text \<open>The classifier answers for every classified chunk of the text.\<close>

definition classifier_succeeds :: "env \<Rightarrow> string \<Rightarrow> bool" where
  "classifier_succeeds e text =
     (\<forall>c \<in> set (classified_chunks text).
        case classifier e c TACTIC_LABELS True of Inl _ \<Rightarrow> False | Inr _ \<Rightarrow> True)"

text \<open>No score that the classifier gives for a classified chunk is negative.\<close>

definition scores_nonnegative :: "env \<Rightarrow> string \<Rightarrow> bool" where
  "scores_nonnegative e text =
     (\<forall>c \<in> set (classified_chunks text).
        case classifier e c TACTIC_LABELS True of
          Inl _ \<Rightarrow> True
        | Inr res \<Rightarrow> (\<forall>s \<in> set (scores res). 0 \<le> s))"

text \<open>The score of a label for a chunk, 0 when the classifier's answer lacks the label.\<close>

definition label_score :: "env \<Rightarrow> string \<Rightarrow> string \<Rightarrow> real" where
  "label_score e chunk label =
     (case chunk_scores e chunk of Inl _ \<Rightarrow> 0 | Inr s \<Rightarrow> dict_get s label 0)"

text \<open>The arithmetic mean of a label's scores across the classified chunks of a text.\<close>

definition mean_score :: "env \<Rightarrow> string \<Rightarrow> string \<Rightarrow> real" where
  "mean_score e text label =
     (\<Sum>c\<leftarrow>classified_chunks text. label_score e c label)
       / real (length (classified_chunks text))"

text \<open>The overall score before its rounding: 180 times the mean over the six tactics of
  their means, capped at 100.\<close>

definition unrounded_overall :: "env \<Rightarrow> string \<Rightarrow> real" where
  "unrounded_overall e text =
     min 100 (180 * ((\<Sum>l\<leftarrow>TACTIC_LABELS. mean_score e text l) / 6))"

text \<open>The position of the first occurrence of an element in a list.\<close>

fun index_of :: "'a list \<Rightarrow> 'a \<Rightarrow> nat" where
  "index_of [] a = 0"
| "index_of (x # xs) a = (if x = a then 0 else Suc (index_of xs a))"

text \<open>The ranking of the tactics: a higher mean first, and the order of the label set
  between equal means.\<close>

definition ranks_before :: "(string \<Rightarrow> real) \<Rightarrow> string \<Rightarrow> string \<Rightarrow> bool" where
  "ranks_before m a b =
     (m b < m a \<or> (m a = m b \<and> index_of TACTIC_LABELS a < index_of TACTIC_LABELS b))"

text \<open>The texts of the paragraphs of a document, and the rows of its tables.\<close>

fun paragraph_texts :: "flowable list \<Rightarrow> string list" where
  "paragraph_texts [] = []"
| "paragraph_texts (Paragraph (Para t style colour) # fs) = t # paragraph_texts fs"
| "paragraph_texts (f # fs) = paragraph_texts fs"

fun story_tables :: "flowable list \<Rightarrow> cell list list list" where
  "story_tables [] = []"
| "story_tables (Table rows # fs) = rows # story_tables fs"
| "story_tables (f # fs) = story_tables fs"

text \<open>The document of a report response, empty when the handler returned none.\<close>

definition returned_story :: "(report_response outcome \<times> string option) \<times> call list \<Rightarrow> flowable list" where
  "returned_story x = (case fst (fst x) of Returned resp \<Rightarrow> pdf_story resp | _ \<Rightarrow> [])"

text \<open>The explanation and the multimodal result inside the response of \<^verbatim>\<open>/analyze\<close>.\<close>

definition degraded_parts ::
  "(analyze_response outcome \<times> string option) \<times> call list \<Rightarrow> (explanation \<times> multimodal) option" where
  "degraded_parts x =
     (case fst (fst x) of
        Returned resp \<Rightarrow> Some (resp_explanation resp, resp_multimodal resp)
      | _ \<Rightarrow> None)"

section \<open>Collaborators for the examples\<close>

text \<open>A classifier that gives every candidate label the same score, in the order asked.\<close>

definition const_classifier :: "real \<Rightarrow> string \<Rightarrow> string list \<Rightarrow> bool \<Rightarrow> exn + clf_result" where
  "const_classifier v t ls multi = Inr \<lparr>labels = ls, scores = map (\<lambda>_. v) ls\<rparr>"

text \<open>An environment with that classifier, no LLM credential and no vision model.\<close>

definition offline_env :: "real \<Rightarrow> env" where
  "offline_env v =
     \<lparr>classifier = const_classifier v, ANTHROPIC_API_KEY = [],
      messages_create = (\<lambda>_ _. Inl (Exception ''connection refused'')),
      clip_available = False,
      fetch_image = (\<lambda>_. Inl (Exception ''connection refused'')),
      clip_probs = (\<lambda>_ _. Inl (Exception ''model not loaded'')),
      elapsed = 0, timestamp = ''January 01, 2025 at 00:00''\<rparr>"

text \<open>Four such environments: the overall score is 18 with the first, 39.96 before and
  40.0 after its rounding with the second, 54 with the third and 70 with the fourth.\<close>

definition low_env :: env where
  "low_env = offline_env 0.1"

definition borderline_env :: env where
  "borderline_env = offline_env 0.222"

definition moderate_env :: env where
  "moderate_env = offline_env 0.3"

definition threshold_env :: env where
  "threshold_env = offline_env (7 / 18)"

text \<open>A classifier that answers with the labels ranked by score, two of them tied at the
  top and two more tied above the threshold of the top tactics.\<close>

definition ranked_classifier :: "string \<Rightarrow> string list \<Rightarrow> bool \<Rightarrow> exn + clf_result" where
  "ranked_classifier t ls multi =
     Inr \<lparr>labels = [''Identity Attack'', ''Fear & Urgency'', ''Scarcity Illusion'',
                   ''Gaslighting'', ''False Social Proof'', ''Emotional Hijacking''],
          scores = [0.9, 0.9, 0.6, 0.3, 0.3, 0.1]\<rparr>"

definition ranked_env :: env where
  "ranked_env = (offline_env 0)\<lparr>classifier := ranked_classifier\<rparr>"

definition urgent_text :: string where
  "urgent_text = ''Act now before it is too late!''"

definition report_text :: string where
  "report_text = ''Act now before it's too late! Everyone is buying this, don't be left behind!''"

definition two_sentences :: string where
  "two_sentences = ''Act now before it is too late! Ok then.''"


text \<open>An environment with a credential and a vision model, where the LLM is unreachable
  and images cannot be fetched; and one where images are fetched and the inference fails.\<close>

definition unreachable_env :: env where
  "unreachable_env = (offline_env 0.5)\<lparr>ANTHROPIC_API_KEY := ''sk-test'', clip_available := True\<rparr>"

definition broken_clip_env :: env where
  "broken_clip_env = unreachable_env\<lparr>fetch_image := (\<lambda>_. Inr (Image []))\<rparr>"

definition image_address :: string where
  "image_address = ''http://example.org/cat.png''"

definition short_request :: analyze_request where
  "short_request =
     \<lparr>req_text = ''Buy now!'', req_url = None, req_image_url = None, req_caption = None,
      include_explanation = True, include_highlights = True\<rparr>"

definition report_request :: analyze_request where
  "report_request = short_request\<lparr>req_text := report_text\<rparr>"

text \<open>An environment whose classifier raises, one whose vision model returns a single
  probability, and a request with an image and a caption.\<close>

definition deaf_env :: env where
  "deaf_env = (offline_env 0.5)\<lparr>classifier := (\<lambda>_ _ _. Inl (Exception ''CUDA out of memory''))\<rparr>"

definition short_tensor_env :: env where
  "short_tensor_env = broken_clip_env\<lparr>clip_probs := (\<lambda>_ _. Inr [1])\<rparr>"

definition captioned_request :: analyze_request where
  "captioned_request =
     report_request\<lparr>req_image_url := Some image_address, req_caption := Some ''a cat''\<rparr>"

section \<open>Words and chunks\<close>

lemma split_from_words:
  "\<forall>c \<in> set cur. \<not> py_isspace c \<Longrightarrow> \<forall>w \<in> set (split_from cur s). is_word w"
proof (induction s arbitrary: cur)
  case Nil
  then show ?case by (auto simp: is_word_def)
next
  case (Cons a s)
  show ?case
  proof (cases "py_isspace a")
    case True
    have "\<forall>w \<in> set (split_from [] s). is_word w"
      by (rule Cons.IH) simp
    with True Cons.prems show ?thesis by (auto simp: is_word_def)
  next
    case False
    have "\<forall>w \<in> set (split_from (cur @ [a]) s). is_word w"
      by (rule Cons.IH) (use False Cons.prems in auto)
    with False show ?thesis by simp
  qed
qed

lemma py_split_words: "\<forall>w \<in> set (py_split s). is_word w"
  unfolding py_split_def by (rule split_from_words) simp




lemma join_words_hd:
  assumes "ws \<noteq> []" "\<forall>w \<in> set ws. is_word w"
  shows "\<exists>c t. py_join '' '' ws = c # t \<and> \<not> py_isspace c"
proof -
  obtain w ws' where ws: "ws = w # ws'" using assms(1) by (cases ws) auto
  then obtain c cs where w: "w = c # cs" "\<not> py_isspace c"
    using assms(2) by (cases w) (auto simp: is_word_def)
  have "\<exists>t. py_join '' '' ws = c # t"
    using ws w by (cases ws') auto
  then show ?thesis using w(2) by auto
qed

lemma join_words_not_blank:
  assumes "ws \<noteq> []" "\<forall>w \<in> set ws. is_word w"
  shows "py_strip (py_join '' '' ws) \<noteq> []"
  using join_words_hd [OF assms] by (auto simp: py_strip_def)

lemma concat_slices:
  "concat (map (\<lambda>k. py_slice ws (k * s) (k * s + s)) [0 ..< m]) = take (m * s) ws"
proof (induction m)
  case 0
  show ?case by simp
next
  case (Suc m)
  have "take (m * s + s) ws = take (m * s) ws @ take s (drop (m * s) ws)"
    by (simp add: take_add)
  with Suc show ?case by (simp add: py_slice_def add.commute)
qed

lemma range_covers: "0 < s \<Longrightarrow> n \<le> ((n + s - 1) div s) * (s::nat)"
proof -
  assume s: "0 < s"
  have "(n + s - 1) mod s \<le> s - 1" using s
    by (metis Suc_pred' less_Suc_eq_le mod_less_divisor)
  moreover have "(n + s - 1) div s * s + (n + s - 1) mod s = n + s - 1" by simp
  ultimately show ?thesis using s by linarith
qed

lemma range_inside: "0 < s \<Longrightarrow> k < (n + s - 1) div s \<Longrightarrow> k * s < (n::nat)"
proof -
  assume s: "0 < s" and k: "k < (n + s - 1) div s"
  then have "Suc k \<le> (n + s - 1) div s" by simp
  then have "Suc k * s \<le> n + s - 1"
    using s by (simp add: less_eq_div_iff_mult_less_eq)
  then show ?thesis using s by (cases s) auto
qed

lemma word_slices_props:
  assumes "0 < s" "sl \<in> set (word_slices s ws)"
  shows "sl \<noteq> []" "length sl \<le> s" "set sl \<subseteq> set ws"
proof -
  from assms(2) obtain k
    where k: "k < (length ws + s - 1) div s" "sl = py_slice ws (k * s) (k * s + s)"
    by (auto simp: word_slices_def)
  have "k * s < length ws" using assms(1) k(1) by (rule range_inside)
  then show "sl \<noteq> []" using k(2) assms(1) by (simp add: py_slice_def)
  show "length sl \<le> s" using k(2) by (simp add: py_slice_def)
  show "set sl \<subseteq> set ws" using k(2)
    by (auto simp: py_slice_def dest: in_set_takeD in_set_dropD)
qed

lemma concat_word_slices: "0 < s \<Longrightarrow> concat (word_slices s ws) = ws"
  using range_covers [of s "length ws"] by (simp add: word_slices_def concat_slices)

text \<open>What \<^verbatim>\<open>_chunk_text\<close> returns for a positive size: no chunk is dropped by its filter.\<close>

lemma chunk_text_eq:
  assumes "0 < s"
  shows "chunk_text text (int s) =
           Inr (if py_split text = [] then [text]
                else map (py_join '' '') (word_slices s (py_split text)))"
proof -
  let ?ws = "py_split text"
  let ?chunks = "map (py_join '' '') (word_slices s ?ws)"
  have keep: "filter (\<lambda>c. py_strip c \<noteq> []) ?chunks = ?chunks"
  proof -
    have "py_strip (py_join '' '' sl) \<noteq> []" if "sl \<in> set (word_slices s ?ws)" for sl
    proof (rule join_words_not_blank)
      show "sl \<noteq> []" using assms that by (rule word_slices_props)
      show "\<forall>w \<in> set sl. is_word w"
        using word_slices_props(3) [OF assms that] py_split_words by blast
    qed
    then show ?thesis by (simp add: filter_id_conv)
  qed
  have empty: "?chunks = [] \<longleftrightarrow> ?ws = []"
  proof
    assume "?chunks = []"
    then show "?ws = []" using concat_word_slices [OF assms, of ?ws] by simp
  next
    assume "?ws = []"
    then show "?chunks = []" using assms by (simp add: word_slices_def)
  qed
  have "chunk_text text (int s) =
          Inr (if filter (\<lambda>c. py_strip c \<noteq> []) ?chunks \<noteq> []
               then filter (\<lambda>c. py_strip c \<noteq> []) ?chunks else [text])"
    using assms
    by (simp add: chunk_text_def Let_def word_slices_def py_range_step_def comp_def)
  then show ?thesis using empty by (simp only: keep) auto
qed

lemma chunk_text_400:
  "chunk_text text 400 =
     Inr (if py_split text = [] then [text]
          else map (py_join '' '') (word_slices 400 (py_split text)))"
proof -
  have "chunk_text text (int 400) =
     Inr (if py_split text = [] then [text]
          else map (py_join '' '') (word_slices 400 (py_split text)))"
    by (rule chunk_text_eq) simp
  then show ?thesis by simp
qed

section \<open>Trimming and joining\<close>





section \<open>Rounding\<close>

lemma round_half_even_cases:
  "round_half_even x = \<lfloor>x\<rfloor> \<or> round_half_even x = \<lfloor>x\<rfloor> + 1"
  by (simp add: round_half_even_def Let_def)

lemma round_half_even_mono:
  assumes "x \<le> y"
  shows "round_half_even x \<le> round_half_even y"
proof (cases "\<lfloor>x\<rfloor> = \<lfloor>y\<rfloor>")
  case True
  have "x - of_int \<lfloor>x\<rfloor> \<le> y - of_int \<lfloor>y\<rfloor>" using assms True by simp
  then show ?thesis using True
    by (simp add: round_half_even_def Let_def)
next
  case False
  then have "\<lfloor>x\<rfloor> + 1 \<le> \<lfloor>y\<rfloor>" using floor_mono [OF assms] by simp
  moreover have "round_half_even x \<le> \<lfloor>x\<rfloor> + 1"
    using round_half_even_cases [of x] by auto
  moreover have "\<lfloor>y\<rfloor> \<le> round_half_even y"
    using round_half_even_cases [of y] by auto
  ultimately show ?thesis by linarith
qed

lemma round_half_even_near:
  "\<bar>of_int (round_half_even x) - x\<bar> \<le> 1 / 2"
  by (auto simp: round_half_even_def Let_def abs_if) linarith+

lemma round_half_even_of_int: "round_half_even (of_int k) = k"
  by (simp add: round_half_even_def)

lemma py_round_mono: "x \<le> y \<Longrightarrow> py_round x n \<le> py_round y n"
  by (simp add: py_round_def divide_right_mono round_half_even_mono)

lemma py_round_near: "\<bar>py_round x n - x\<bar> \<le> 1 / (2 * 10 ^ n)"
proof -
  have "\<bar>py_round x n - x\<bar> = \<bar>of_int (round_half_even (x * 10 ^ n)) - x * 10 ^ n\<bar> / 10 ^ n"
    by (simp add: py_round_def field_simps abs_divide)
  also have "\<dots> \<le> (1 / 2) / 10 ^ n"
    by (intro divide_right_mono round_half_even_near) simp
  finally show ?thesis by simp
qed

lemma py_round_of_int: "py_round (of_int k) n = of_int k"
proof -
  have "(of_int k :: real) * 10 ^ n = of_int (k * 10 ^ n)" by simp
  then have "round_half_even (of_int k * 10 ^ n) = k * 10 ^ n"
    by (simp only: round_half_even_of_int)
  then show ?thesis by (simp add: py_round_def)
qed

lemma py_round_consts:
  "py_round 0 n = 0" "py_round 40 n = 40" "py_round 70 n = 70" "py_round 100 n = 100"
  using py_round_of_int [of 0 n] py_round_of_int [of 40 n] py_round_of_int [of 70 n]
    py_round_of_int [of 100 n] by simp_all

section \<open>Stable sorting\<close>

lemma insort_key_sorted_wrt:
  assumes "sorted_wrt R zs" "sorted (map f zs)"
    and "\<And>z. z \<in> set zs \<Longrightarrow> f z < f y \<Longrightarrow> R z y"
    and "\<And>z. z \<in> set zs \<Longrightarrow> f y \<le> f z \<Longrightarrow> R y z"
  shows "sorted_wrt R (insort_key f y zs)"
  using assms
proof (induction zs)
  case Nil
  show ?case by simp
next
  case (Cons z zs)
  show ?case
  proof (cases "f y \<le> f z")
    case True
    have "R y w" if "w \<in> set (z # zs)" for w
    proof -
      have "f z \<le> f w" using that Cons.prems(2) by auto
      then show ?thesis using True that Cons.prems(4) by force
    qed
    then show ?thesis using True Cons.prems(1) by simp
  next
    case False
    have "sorted_wrt R (insort_key f y zs)"
      using Cons.prems by (intro Cons.IH) auto
    moreover have "R z y" using False Cons.prems(3) by simp
    ultimately show ?thesis using False Cons.prems(1) by (auto simp: set_insort_key)
  qed
qed

lemma sort_key_stable_wrt:
  fixes f :: "'a \<Rightarrow> real"
  assumes "sorted_wrt B ys"
  shows "sorted_wrt (\<lambda>b a. f b < f a \<or> (f b = f a \<and> B b a)) (sort_key f ys)"
  using assms
proof (induction ys)
  case Nil
  show ?case by simp
next
  case (Cons y ys)
  have "sorted_wrt (\<lambda>b a. f b < f a \<or> (f b = f a \<and> B b a)) (insort_key f y (sort_key f ys))"
  proof (rule insort_key_sorted_wrt)
    show "sorted_wrt (\<lambda>b a. f b < f a \<or> (f b = f a \<and> B b a)) (sort_key f ys)"
      using Cons by simp
    show "sorted (map f (sort_key f ys))" by simp
    show "f z < f y \<or> (f z = f y \<and> B z y)" if "f z < f y" for z using that by simp
    show "f y < f z \<or> (f y = f z \<and> B y z)" if "z \<in> set (sort_key f ys)" "f y \<le> f z" for z
      using that Cons.prems by auto
  qed
  then show ?case by simp
qed

lemma index_of_sorted:
  "distinct xs \<Longrightarrow> sorted_wrt (\<lambda>a b. index_of xs a < index_of xs b) xs"
proof (induction xs)
  case Nil
  show ?case by simp
next
  case (Cons x xs)
  have "sorted_wrt (\<lambda>a b. index_of xs a < index_of xs b) xs" using Cons by simp
  then have "sorted_wrt (\<lambda>a b. index_of (x # xs) a < index_of (x # xs) b) xs"
    using Cons.prems by (rule_tac sorted_wrt_mono_rel) auto
  then show ?case using Cons.prems by auto
qed

lemma py_sorted_reverse_ranked:
  fixes f :: "'a \<Rightarrow> real"
  assumes "distinct xs"
  shows "sorted_wrt (\<lambda>a b. f b < f a \<or> (f a = f b \<and> index_of xs a < index_of xs b))
           (py_sorted_reverse f xs)"
proof -
  have "sorted_wrt (\<lambda>b a. index_of xs a < index_of xs b) (rev xs)"
    using index_of_sorted [OF assms] by (simp add: sorted_wrt_rev)
  then have "sorted_wrt (\<lambda>b a. f b < f a \<or> (f b = f a \<and> index_of xs a < index_of xs b))
               (sort_key f (rev xs))"
    by (rule sort_key_stable_wrt)
  then have "sorted_wrt (\<lambda>a b. f b < f a \<or> (f b = f a \<and> index_of xs a < index_of xs b))
               (py_sorted_reverse f xs)"
    by (simp add: py_sorted_reverse_def sorted_wrt_rev)
  then show ?thesis
    by (rule sorted_wrt_mono_rel [rotated]) auto
qed

lemma insort_key_map:
  "insort_key f (g x) (map g xs) = map g (insort_key (\<lambda>a. f (g a)) x xs)"
  by (induction xs) auto

lemma sort_key_map: "sort_key f (map g xs) = map g (sort_key (\<lambda>a. f (g a)) xs)"
  by (induction xs) (auto simp: insort_key_map)

lemma py_sorted_reverse_map:
  "py_sorted_reverse f (map g xs) = map g (py_sorted_reverse (\<lambda>a. f (g a)) xs)"
  by (simp add: py_sorted_reverse_def sort_key_map rev_map)

lemma set_py_sorted_reverse: "set (py_sorted_reverse f xs) = set xs"
  by (simp add: py_sorted_reverse_def)

lemma distinct_TACTIC_LABELS: "distinct TACTIC_LABELS"
  by (simp add: TACTIC_LABELS_def)

lemma ranked_TACTIC_LABELS:
  "sorted_wrt (ranks_before m) (py_sorted_reverse m TACTIC_LABELS)"
  using py_sorted_reverse_ranked [OF distinct_TACTIC_LABELS, of m]
  by (simp add: ranks_before_def [abs_def])

lemma take_filter_ranked:
  assumes "sorted_wrt R xs"
  shows "length (take n (filter P xs)) \<le> n"
    and "set (take n (filter P xs)) \<subseteq> {x \<in> set xs. P x}"
    and "sorted_wrt R (take n (filter P xs))"
    and "\<And>x. x \<in> set xs \<Longrightarrow> P x \<Longrightarrow> x \<notin> set (take n (filter P xs)) \<Longrightarrow>
           length (take n (filter P xs)) = n \<and> (\<forall>t \<in> set (take n (filter P xs)). R t x)"
proof -
  let ?F = "filter P xs"
  show "length (take n ?F) \<le> n" by simp
  show "set (take n ?F) \<subseteq> {x \<in> set xs. P x}"
    using set_take_subset [of n ?F] by auto
  have sF: "sorted_wrt R ?F" using assms(1) by (rule sorted_wrt_filter)
  then show "sorted_wrt R (take n ?F)" by simp
  fix x assume x: "x \<in> set xs" "P x" "x \<notin> set (take n ?F)"
  have "set ?F = set (take n ?F) \<union> set (drop n ?F)"
    by (metis append_take_drop_id set_append)
  then have xd: "x \<in> set (drop n ?F)" using x by auto
  then have "n < length ?F" by (cases "n < length ?F") auto
  then have len: "length (take n ?F) = n" by simp
  have "sorted_wrt R (take n ?F @ drop n ?F)" using sF by simp
  then have "\<forall>t \<in> set (take n ?F). R t x"
    using xd unfolding sorted_wrt_append by blast
  then show "length (take n ?F) = n \<and> (\<forall>t \<in> set (take n ?F). R t x)" using len by simp
qed

section \<open>The classification loop\<close>

lemma classify_chunks_Cons_Inl:
  "chunk_scores e c = Inl x \<Longrightarrow> classify_chunks e (c # cs) = (Inl x, [ClassifierCall c True])"
  by simp

lemma classify_chunks_Cons_Inr:
  "chunk_scores e c = Inr s \<Longrightarrow>
     classify_chunks e (c # cs) =
       (case fst (classify_chunks e cs) of Inl x \<Rightarrow> Inl x | Inr ss \<Rightarrow> Inr (s # ss),
        ClassifierCall c True # snd (classify_chunks e cs))"
  by (simp split: prod.splits sum.splits)

lemma classify_chunks_Inr:
  "fst (classify_chunks e cs) = Inr ss \<longleftrightarrow> map (chunk_scores e) cs = map Inr ss"
proof (induction cs arbitrary: ss)
  case Nil
  show ?case by auto
next
  case (Cons c cs)
  show ?case
  proof (cases "chunk_scores e c")
    case (Inl x)
    then show ?thesis by (cases ss) (simp_all add: classify_chunks_Cons_Inl del: classify_chunks.simps)
  next
    case (Inr s)
    note step = classify_chunks_Cons_Inr [OF Inr, of cs]
    show ?thesis
    proof (cases ss)
      case Nil
      then show ?thesis
        by (simp add: step del: classify_chunks.simps split: sum.splits)
    next
      case tl: (Cons s' ss')
      have "fst (classify_chunks e (c # cs)) = Inr (s' # ss') \<longleftrightarrow>
              s = s' \<and> fst (classify_chunks e cs) = Inr ss'"
        by (simp add: step del: classify_chunks.simps split: sum.splits)
      then show ?thesis using tl Inr Cons.IH [of ss']
        by (simp del: classify_chunks.simps)
    qed
  qed
qed


lemma classify_chunks_total:
  assumes "\<forall>c \<in> set cs. \<exists>s. chunk_scores e c = Inr s"
  shows "\<exists>ss. fst (classify_chunks e cs) = Inr ss"
  using assms
proof (induction cs)
  case Nil
  show ?case by simp
next
  case (Cons c cs)
  then obtain s ss where s: "chunk_scores e c = Inr s" and "fst (classify_chunks e cs) = Inr ss"
    by auto
  then show ?case
    by (simp add: classify_chunks_Cons_Inr [OF s] del: classify_chunks.simps)
qed

lemma classify_chunks_calls:
  "fst (classify_chunks e cs) = Inr ss \<Longrightarrow>
     snd (classify_chunks e cs) = map (\<lambda>c. ClassifierCall c True) cs"
proof (induction cs arbitrary: ss)
  case Nil
  show ?case by simp
next
  case (Cons c cs)
  show ?case
  proof (cases "chunk_scores e c")
    case (Inl x)
    then show ?thesis using Cons.prems
      by (simp add: classify_chunks_Cons_Inl del: classify_chunks.simps)
  next
    case (Inr s)
    note step = classify_chunks_Cons_Inr [OF Inr, of cs]
    from Cons.prems obtain ss' where "fst (classify_chunks e cs) = Inr ss'"
      by (cases "fst (classify_chunks e cs)") (simp_all add: step del: classify_chunks.simps)
    then have "snd (classify_chunks e cs) = map (\<lambda>c. ClassifierCall c True) cs"
      by (rule Cons.IH)
    then show ?thesis by (simp add: step del: classify_chunks.simps)
  qed
qed

lemma word_slices_nonempty: "0 < s \<Longrightarrow> ws \<noteq> [] \<Longrightarrow> word_slices s ws \<noteq> []"
  using concat_word_slices [of s ws] by auto

lemma classified_chunks_eq:
  "classified_chunks text =
     take 5 (if py_split text = [] then [text]
             else map (py_join '' '') (word_slices 400 (py_split text)))"
  by (simp add: classified_chunks_def chunk_text_400)

lemma classified_chunks_nonempty: "classified_chunks text \<noteq> []"
  using word_slices_nonempty [of 400 "py_split text"]
  by (simp add: classified_chunks_eq)


lemma tactic_means_eq:
  assumes "map (chunk_scores e) (classified_chunks text) = map Inr ss"
  shows "tactic_means ss = map (\<lambda>l. (l, mean_score e text l)) TACTIC_LABELS"
proof -
  have len: "length ss = length (classified_chunks text)"
    using arg_cong [OF assms, of length] by simp
  have "map (\<lambda>s. dict_get s l 0) ss = map (\<lambda>c. label_score e c l) (classified_chunks text)" for l
  proof -
    let ?g = "\<lambda>x :: exn + (string \<rightharpoonup> real). case x of Inl _ \<Rightarrow> 0 | Inr s \<Rightarrow> dict_get s l 0"
    have "map (\<lambda>c. label_score e c l) (classified_chunks text)
            = map ?g (map (chunk_scores e) (classified_chunks text))"
      by (simp add: label_score_def comp_def)
    also have "\<dots> = map ?g (map Inr ss)"
      by (simp only: assms)
    also have "\<dots> = map (\<lambda>s. dict_get s l 0) ss"
      by (simp add: comp_def)
    finally show ?thesis by simp
  qed
  then show ?thesis
    by (simp add: tactic_means_def np_mean_def mean_score_def len)
qed

text \<open>The result that \<^verbatim>\<open>analyze_text\<close> builds from the per-tactic means.\<close>

lemma analyze_text_valid:
  assumes "text \<noteq> []" "10 \<le> length (py_strip text)"
    and "fst (classify_chunks e (classified_chunks text)) = Inr ss"
  shows "fst (analyze_text e text) =
           Inr \<lparr>overall_score = py_round (unrounded_overall e text) 1,
                severity = fst (severity_of (unrounded_overall e text)),
                severity_color = snd (severity_of (unrounded_overall e text)),
                tactic_scores = map (\<lambda>l. (l, py_round (mean_score e text l * 100) 1)) TACTIC_LABELS,
                tactic_colors = TACTIC_COLORS,
                top_tactics = take 3 (filter (\<lambda>l. 1 / 4 < mean_score e text l)
                                (py_sorted_reverse (mean_score e text) TACTIC_LABELS)),
                tactic_descriptions = TACTIC_DESCRIPTIONS,
                chunks_analyzed = length (classified_chunks text),
                word_count = length (py_split text)\<rparr>"
proof -
  let ?cs = "classified_chunks text"
  let ?m = "mean_score e text"
  have ss: "map (chunk_scores e) ?cs = map Inr ss"
    using assms(3) by (simp add: classify_chunks_Inr)
  have "length ss = length ?cs" using arg_cong [OF ss, of length] by simp
  then have ne: "ss \<noteq> []" using classified_chunks_nonempty [of "text"] by auto
  have tm: "tactic_means ss = map (\<lambda>l. (l, ?m l)) TACTIC_LABELS"
    using ss by (rule tactic_means_eq)
  have raw: "np_mean (map snd (tactic_means ss)) = (\<Sum>l\<leftarrow>TACTIC_LABELS. ?m l) / 6"
    by (simp add: tm np_mean_def comp_def) (simp add: TACTIC_LABELS_def)
  have ov: "min 100 (np_mean (map snd (tactic_means ss)) * 180) = unrounded_overall e text"
    by (simp add: raw unrounded_overall_def mult.commute)
  have top: "map fst (filter (\<lambda>(t, s). 0.25 < s) (py_sorted_reverse snd (tactic_means ss)))
               = filter (\<lambda>l. 1 / 4 < ?m l) (py_sorted_reverse ?m TACTIC_LABELS)"
    by (simp add: tm py_sorted_reverse_map filter_map comp_def)
  have ts: "map (\<lambda>(k, v). (k, py_round (v * 100) 1)) (tactic_means ss)
              = map (\<lambda>l. (l, py_round (?m l * 100) 1)) TACTIC_LABELS"
    by (simp add: tm comp_def)
  obtain calls where cc: "classify_chunks e ?cs = (Inr ss, calls)"
    using assms(3) by (cases "classify_chunks e ?cs") auto
  have chunks: "chunk_text text 400 = Inr (case chunk_text text 400 of Inl _ \<Rightarrow> [] | Inr c \<Rightarrow> c)"
    by (simp add: chunk_text_400)
  show ?thesis
    unfolding analyze_text_def
    apply (subst chunks)
    using assms(1,2) cc ne
    apply (simp only: classified_chunks_def [symmetric] sum.case prod.case Let_def if_False ov top ts
           split_beta fst_conv snd_conv)
    apply simp
    done
qed

lemma chunk_scores_succeeds:
  assumes "classifier_succeeds e text" "c \<in> set (classified_chunks text)"
  shows "\<exists>s. chunk_scores e c = Inr s"
  using assms by (auto simp: classifier_succeeds_def chunk_scores_def split: sum.splits)

lemma classify_chunks_succeeds:
  "classifier_succeeds e text \<Longrightarrow> \<exists>ss. fst (classify_chunks e (classified_chunks text)) = Inr ss"
  by (rule classify_chunks_total) (simp add: chunk_scores_succeeds)

lemma dict_get_zip_nonneg:
  assumes "\<forall>s \<in> set ss. (0::real) \<le> s"
  shows "0 \<le> dict_get (py_dict (zip ls ss)) l 0"
proof (cases "map_of (rev (zip ls ss)) l")
  case None
  then show ?thesis by (simp add: dict_get_def py_dict_def)
next
  case (Some v)
  then have "(l, v) \<in> set (zip ls ss)" using map_of_SomeD by fastforce
  then have "v \<in> set ss" by (rule set_zip_rightD)
  then show ?thesis using Some assms by (simp add: dict_get_def py_dict_def)
qed

lemma label_score_nonneg:
  assumes "scores_nonnegative e text" "c \<in> set (classified_chunks text)"
  shows "0 \<le> label_score e c l"
proof (cases "classifier e c TACTIC_LABELS True")
  case (Inl x)
  then show ?thesis by (simp add: label_score_def chunk_scores_def)
next
  case (Inr res)
  then have "\<forall>s \<in> set (scores res). 0 \<le> s"
    using assms by (auto simp: scores_nonnegative_def)
  then show ?thesis using Inr
    by (simp add: label_score_def chunk_scores_def dict_get_zip_nonneg)
qed

lemma mean_score_nonneg:
  assumes "scores_nonnegative e text"
  shows "0 \<le> mean_score e text l"
proof -
  have "0 \<le> (\<Sum>c\<leftarrow>classified_chunks text. label_score e c l)"
    by (rule sum_list_nonneg) (auto simp: label_score_nonneg [OF assms])
  then show ?thesis by (simp add: mean_score_def)
qed

lemma unrounded_overall_range:
  assumes "scores_nonnegative e text"
  shows "0 \<le> unrounded_overall e text" "unrounded_overall e text \<le> 100"
proof -
  have "0 \<le> (\<Sum>l\<leftarrow>TACTIC_LABELS. mean_score e text l)"
    by (rule sum_list_nonneg) (auto simp: mean_score_nonneg [OF assms])
  then show "0 \<le> unrounded_overall e text" by (simp add: unrounded_overall_def)
  show "unrounded_overall e text \<le> 100" by (simp add: unrounded_overall_def)
qed

lemma analyze_text_raises:
  assumes "text \<noteq> []" "10 \<le> length (py_strip text)"
    and "fst (classify_chunks e (classified_chunks text)) = Inl x"
  shows "fst (analyze_text e text) = Inl x"
proof -
  obtain calls where cc: "classify_chunks e (classified_chunks text) = (Inl x, calls)"
    using assms(3) by (cases "classify_chunks e (classified_chunks text)") auto
  have chunks: "chunk_text text 400 = Inr (case chunk_text text 400 of Inl _ \<Rightarrow> [] | Inr c \<Rightarrow> c)"
    by (simp add: chunk_text_400)
  show ?thesis
    unfolding analyze_text_def
    apply (subst chunks)
    using assms(1,2) cc
    apply (simp only: classified_chunks_def [symmetric] sum.case prod.case if_False)
    apply simp
    done
qed

lemma analyze_text_returned:
  assumes "text \<noteq> []" "10 \<le> length (py_strip text)" "fst (analyze_text e text) = Inr r"
  shows "\<exists>ss. fst (classify_chunks e (classified_chunks text)) = Inr ss"
proof (cases "fst (classify_chunks e (classified_chunks text))")
  case (Inl x)
  then show ?thesis using analyze_text_raises [OF assms(1,2) Inl] assms(3) by simp
next
  case (Inr ss)
  then show ?thesis by simp
qed

lemma severity_of_cases:
  "fst (severity_of u) = (if 70 \<le> u then ''HIGH'' else if 40 \<le> u then ''MODERATE'' else ''LOW'')"
  by (simp add: severity_of_def)

lemma analyze_text_returns:
  assumes "text \<noteq> []" "10 \<le> length (py_strip text)" "classifier_succeeds e text"
  shows "\<exists>r. fst (analyze_text e text) = Inr r"
proof -
  obtain ss where "fst (classify_chunks e (classified_chunks text)) = Inr ss"
    using classify_chunks_succeeds [OF assms(3)] by auto
  from analyze_text_valid [OF assms(1,2) this] show ?thesis by simp
qed

section \<open>The example inputs\<close>

lemma urgent_text_valid: "urgent_text \<noteq> []" "10 \<le> length (py_strip urgent_text)"
  by code_simp+

lemma ranked_env_succeeds: "classifier_succeeds ranked_env urgent_text"
  by code_simp

lemma ranked_env_nonnegative: "scores_nonnegative ranked_env urgent_text"
  by code_simp

lemma offline_env_succeeds: "classifier_succeeds (offline_env v) urgent_text"
proof -
  have "classified_chunks urgent_text = [urgent_text]" by code_simp
  then show ?thesis
    by (simp add: classifier_succeeds_def offline_env_def const_classifier_def)
qed

lemma report_text_valid: "report_text \<noteq> []" "10 \<le> length (py_strip report_text)"
  by code_simp+

section \<open>The overall score\<close>

text \<open>
  C1: for every text of at least 10 trimmed characters whose chunks the classifier
  answers with scores that are not negative, \<^verbatim>\<open>analyze_text\<close> returns a result, and its
  overall score lies in [0, 100] and is min(100, 180 times the arithmetic mean over the
  six tactics of the per-tactic means across the classified chunks), rounded to one
  decimal: it differs from the unrounded value by 0.05 at most.
\<close>

theorem analyze_text_overall_score:
  assumes "text \<noteq> []" "10 \<le> length (py_strip text)"
    and "classifier_succeeds e text" "scores_nonnegative e text"
  shows "\<exists>r. fst (analyze_text e text) = Inr r
           \<and> overall_score r = py_round (unrounded_overall e text) 1
           \<and> \<bar>overall_score r - unrounded_overall e text\<bar> \<le> 1 / 20
           \<and> 0 \<le> overall_score r \<and> overall_score r \<le> 100"
proof -
  obtain ss where "fst (classify_chunks e (classified_chunks text)) = Inr ss"
    using classify_chunks_succeeds [OF assms(3)] by auto
  note r = analyze_text_valid [OF assms(1,2) this]
  let ?u = "unrounded_overall e text"
  have near: "\<bar>py_round ?u 1 - ?u\<bar> \<le> 1 / 20"
    using py_round_near [of ?u 1] by simp
  have "py_round 0 1 \<le> py_round ?u 1"
    using unrounded_overall_range(1) [OF assms(4)] by (rule py_round_mono)
  then have lo: "0 \<le> py_round ?u 1" by (simp add: py_round_consts)
  have "py_round ?u 1 \<le> py_round 100 1"
    using unrounded_overall_range(2) [OF assms(4)] by (rule py_round_mono)
  then have hi: "py_round ?u 1 \<le> 100" by (simp add: py_round_consts)
  show ?thesis using near lo hi by (simp add: r)
qed

theorem analyze_text_overall_score_witness:
  "urgent_text \<noteq> [] \<and> 10 \<le> length (py_strip urgent_text)
     \<and> classifier_succeeds ranked_env urgent_text \<and> scores_nonnegative ranked_env urgent_text
     \<and> unrounded_overall ranked_env urgent_text = 93
     \<and> map_sum id overall_score (fst (analyze_text ranked_env urgent_text)) = Inr 93"
proof -
  have "unrounded_overall ranked_env urgent_text = 93" by code_simp
  then show ?thesis
    using analyze_text_overall_score [OF urgent_text_valid ranked_env_succeeds ranked_env_nonnegative]
      urgent_text_valid ranked_env_succeeds ranked_env_nonnegative
    by (auto simp: py_round_consts py_round_of_int [of 93 1, simplified])
qed

section \<open>Severity\<close>

text \<open>
  C2 (as stated): the severity is a function of the returned overall score, with 40
  giving MODERATE.  A classifier that scores every tactic 0.222 yields 39.96 before the
  rounding: the result carries the overall score 40.0 and the severity LOW.
\<close>

theorem severity_at_rounded_boundary:
  "map_sum id (\<lambda>r. (overall_score r, severity r))
     (fst (analyze_text borderline_env urgent_text)) = Inr (40, ''LOW'')"
  by code_simp

text \<open>
  C2 (amended): in every result returned by \<^verbatim>\<open>analyze_text\<close> the severity is a function of
  the overall score before its rounding to one decimal (below 40 LOW, from 40 up to but
  not 70 MODERATE, from 70 HIGH).  For the returned overall score this gives: below 40
  LOW, strictly between 40 and 70 MODERATE, above 70 HIGH; a returned 40.0 carries LOW
  or MODERATE and a returned 70.0 carries MODERATE or HIGH.
\<close>

theorem severity_of_unrounded_score:
  assumes "fst (analyze_text e text) = Inr r"
  shows "(overall_score r < 40 \<longrightarrow> severity r = ''LOW'')
       \<and> (40 < overall_score r \<and> overall_score r < 70 \<longrightarrow> severity r = ''MODERATE'')
       \<and> (70 < overall_score r \<longrightarrow> severity r = ''HIGH'')
       \<and> (overall_score r = 40 \<longrightarrow> severity r = ''LOW'' \<or> severity r = ''MODERATE'')
       \<and> (overall_score r = 70 \<longrightarrow> severity r = ''MODERATE'' \<or> severity r = ''HIGH'')
       \<and> (text \<noteq> [] \<and> 10 \<le> length (py_strip text) \<longrightarrow>
            overall_score r = py_round (unrounded_overall e text) 1
            \<and> severity r =
                (if 70 \<le> unrounded_overall e text then ''HIGH''
                 else if 40 \<le> unrounded_overall e text then ''MODERATE'' else ''LOW''))"
proof (cases "text = [] \<or> length (py_strip text) < 10")
  case True
  then have "r = empty_result" using assms by (auto simp: analyze_text_def)
  then show ?thesis using True by (auto simp: empty_result_def)
next
  case False
  then have v: "text \<noteq> []" "10 \<le> length (py_strip text)" by auto
  obtain ss where "fst (classify_chunks e (classified_chunks text)) = Inr ss"
    using analyze_text_returned [OF v assms] by auto
  note eq = analyze_text_valid [OF v this]
  let ?u = "unrounded_overall e text"
  have score: "overall_score r = py_round ?u 1" and sev: "severity r = fst (severity_of ?u)"
    using assms eq by auto
  have a: "?u < 40 \<Longrightarrow> py_round ?u 1 \<le> 40"
    using py_round_mono [of ?u 40 1] by (simp add: py_round_consts)
  have b: "40 \<le> ?u \<Longrightarrow> 40 \<le> py_round ?u 1"
    using py_round_mono [of 40 ?u 1] by (simp add: py_round_consts)
  have c: "?u < 70 \<Longrightarrow> py_round ?u 1 \<le> 70"
    using py_round_mono [of ?u 70 1] by (simp add: py_round_consts)
  have d: "70 \<le> ?u \<Longrightarrow> 70 \<le> py_round ?u 1"
    using py_round_mono [of 70 ?u 1] by (simp add: py_round_consts)
  show ?thesis
    unfolding score sev severity_of_cases using a b c d v
    by (cases "70 \<le> ?u"; cases "40 \<le> ?u") auto
qed

theorem severity_of_unrounded_score_witness:
  "urgent_text \<noteq> [] \<and> 10 \<le> length (py_strip urgent_text)
     \<and> unrounded_overall low_env urgent_text = 18
     \<and> map_sum id (\<lambda>r. (overall_score r, severity r))
           (fst (analyze_text low_env urgent_text)) = Inr (18, ''LOW'')
     \<and> unrounded_overall borderline_env urgent_text < 40
     \<and> map_sum id (\<lambda>r. (overall_score r, severity r))
           (fst (analyze_text borderline_env urgent_text)) = Inr (40, ''LOW'')
     \<and> unrounded_overall moderate_env urgent_text = 54
     \<and> map_sum id (\<lambda>r. (overall_score r, severity r))
           (fst (analyze_text moderate_env urgent_text)) = Inr (54, ''MODERATE'')
     \<and> unrounded_overall threshold_env urgent_text = 70
     \<and> map_sum id (\<lambda>r. (overall_score r, severity r))
           (fst (analyze_text threshold_env urgent_text)) = Inr (70, ''HIGH'')
     \<and> unrounded_overall ranked_env urgent_text = 93
     \<and> map_sum id (\<lambda>r. (overall_score r, severity r))
           (fst (analyze_text ranked_env urgent_text)) = Inr (93, ''HIGH'')"
proof -
  have u: "unrounded_overall low_env urgent_text = 18"
    "unrounded_overall borderline_env urgent_text = 999 / 25"
    "unrounded_overall moderate_env urgent_text = 54"
    "unrounded_overall threshold_env urgent_text = 70"
    "unrounded_overall ranked_env urgent_text = 93"
    by code_simp+
  have rounded: "py_round 18 1 = 18" "py_round (999 / 25) 1 = 40" "py_round 54 1 = 54"
    "py_round 70 1 = 70" "py_round 93 1 = 93"
    by code_simp+
  obtain r1 where r1: "fst (analyze_text low_env urgent_text) = Inr r1"
    using analyze_text_returns [OF urgent_text_valid offline_env_succeeds]
    unfolding low_env_def by blast
  obtain r2 where r2: "fst (analyze_text borderline_env urgent_text) = Inr r2"
    using analyze_text_returns [OF urgent_text_valid offline_env_succeeds]
    unfolding borderline_env_def by blast
  obtain r3 where r3: "fst (analyze_text moderate_env urgent_text) = Inr r3"
    using analyze_text_returns [OF urgent_text_valid offline_env_succeeds]
    unfolding moderate_env_def by blast
  obtain r4 where r4: "fst (analyze_text threshold_env urgent_text) = Inr r4"
    using analyze_text_returns [OF urgent_text_valid offline_env_succeeds]
    unfolding threshold_env_def by blast
  obtain r5 where r5: "fst (analyze_text ranked_env urgent_text) = Inr r5"
    using analyze_text_returns [OF urgent_text_valid ranked_env_succeeds] by blast
  have "overall_score r1 = 18 \<and> severity r1 = ''LOW''"
    using severity_of_unrounded_score [OF r1, unfolded u rounded] urgent_text_valid by simp
  moreover have "overall_score r2 = 40 \<and> severity r2 = ''LOW''"
    using severity_of_unrounded_score [OF r2, unfolded u rounded] urgent_text_valid by simp
  moreover have "overall_score r3 = 54 \<and> severity r3 = ''MODERATE''"
    using severity_of_unrounded_score [OF r3, unfolded u rounded] urgent_text_valid by simp
  moreover have "overall_score r4 = 70 \<and> severity r4 = ''HIGH''"
    using severity_of_unrounded_score [OF r4, unfolded u rounded] urgent_text_valid by simp
  moreover have "overall_score r5 = 93 \<and> severity r5 = ''HIGH''"
    using severity_of_unrounded_score [OF r5, unfolded u rounded] urgent_text_valid by simp
  ultimately show ?thesis
    using urgent_text_valid by (simp add: r1 r2 r3 r4 r5 u)
qed

section \<open>The top tactics\<close>

text \<open>
  C3: for every text of at least 10 trimmed characters whose chunks the classifier
  answers, the list of top tactics that \<^verbatim>\<open>analyze_text\<close> returns has at most 3 entries,
  each a tactic whose mean exceeds 0.25; it is ordered by descending mean, equal means
  in the order of the label set; and a tactic whose mean exceeds 0.25 is left out only
  when the list is full with three tactics that all rank before it.
\<close>

theorem top_tactics_ranked:
  assumes "text \<noteq> []" "10 \<le> length (py_strip text)" "classifier_succeeds e text"
  shows "\<exists>r. fst (analyze_text e text) = Inr r
           \<and> length (top_tactics r) \<le> 3
           \<and> (\<forall>t \<in> set (top_tactics r). t \<in> set TACTIC_LABELS \<and> 1 / 4 < mean_score e text t)
           \<and> sorted_wrt (ranks_before (mean_score e text)) (top_tactics r)
           \<and> (\<forall>l \<in> set TACTIC_LABELS.
                 1 / 4 < mean_score e text l \<and> l \<notin> set (top_tactics r) \<longrightarrow>
                   length (top_tactics r) = 3
                   \<and> (\<forall>t \<in> set (top_tactics r). ranks_before (mean_score e text) t l))"
proof -
  obtain ss where "fst (classify_chunks e (classified_chunks text)) = Inr ss"
    using classify_chunks_succeeds [OF assms(3)] by auto
  note r = analyze_text_valid [OF assms(1,2) this]
  let ?m = "mean_score e text"
  let ?S = "py_sorted_reverse ?m TACTIC_LABELS"
  let ?top = "take 3 (filter (\<lambda>l. 1 / 4 < ?m l) ?S)"
  note facts = take_filter_ranked [OF ranked_TACTIC_LABELS [of ?m], where n = 3 and P = "\<lambda>l. 1 / 4 < ?m l"]
  have 1: "length ?top \<le> 3" by (rule facts(1))
  have 2: "\<forall>t \<in> set ?top. t \<in> set TACTIC_LABELS \<and> 1 / 4 < ?m t"
    using facts(2) by (auto simp: set_py_sorted_reverse)
  have 3: "sorted_wrt (ranks_before ?m) ?top" by (rule facts(3))
  have 4: "\<forall>l \<in> set TACTIC_LABELS. 1 / 4 < ?m l \<and> l \<notin> set ?top \<longrightarrow>
             length ?top = 3 \<and> (\<forall>t \<in> set ?top. ranks_before ?m t l)"
    using facts(4) by (simp add: set_py_sorted_reverse)
  obtain res where res: "fst (analyze_text e text) = Inr res" "top_tactics res = ?top"
    using r by simp
  show ?thesis
  proof (intro exI conjI)
    show "fst (analyze_text e text) = Inr res" by (rule res(1))
    show "length (top_tactics res) \<le> 3" unfolding res(2) by (rule 1)
    show "\<forall>t \<in> set (top_tactics res). t \<in> set TACTIC_LABELS \<and> 1 / 4 < ?m t"
      unfolding res(2) by (rule 2)
    show "sorted_wrt (ranks_before ?m) (top_tactics res)" unfolding res(2) by (rule 3)
    show "\<forall>l \<in> set TACTIC_LABELS. 1 / 4 < ?m l \<and> l \<notin> set (top_tactics res) \<longrightarrow>
             length (top_tactics res) = 3 \<and> (\<forall>t \<in> set (top_tactics res). ranks_before ?m t l)"
      unfolding res(2) by (rule 4)
  qed
qed

theorem top_tactics_ranked_witness:
  "urgent_text \<noteq> [] \<and> 10 \<le> length (py_strip urgent_text)
     \<and> classifier_succeeds ranked_env urgent_text
     \<and> map_sum id top_tactics (fst (analyze_text ranked_env urgent_text))
         = Inr [''Fear & Urgency'', ''Identity Attack'', ''Scarcity Illusion'']
     \<and> mean_score ranked_env urgent_text ''Fear & Urgency'' = 9 / 10
     \<and> mean_score ranked_env urgent_text ''Identity Attack'' = 9 / 10
     \<and> mean_score ranked_env urgent_text ''Scarcity Illusion'' = 6 / 10
     \<and> mean_score ranked_env urgent_text ''Gaslighting'' = 3 / 10
     \<and> ''Gaslighting'' \<in> set TACTIC_LABELS
     \<and> ranks_before (mean_score ranked_env urgent_text) ''Fear & Urgency'' ''Identity Attack''
     \<and> ranks_before (mean_score ranked_env urgent_text) ''Scarcity Illusion'' ''Gaslighting''"
proof -
  have tv: "map_sum id top_tactics (fst (analyze_text ranked_env urgent_text))
         = Inr [''Fear & Urgency'', ''Identity Attack'', ''Scarcity Illusion'']"
    by code_simp
  have m: "mean_score ranked_env urgent_text ''Fear & Urgency'' = 9 / 10"
    "mean_score ranked_env urgent_text ''Identity Attack'' = 9 / 10"
    "mean_score ranked_env urgent_text ''Scarcity Illusion'' = 6 / 10"
    "mean_score ranked_env urgent_text ''Gaslighting'' = 3 / 10"
    by code_simp+
  have l: "''Gaslighting'' \<in> set TACTIC_LABELS" by (simp add: TACTIC_LABELS_def)
  obtain r where r: "fst (analyze_text ranked_env urgent_text) = Inr r"
     and ranked: "sorted_wrt (ranks_before (mean_score ranked_env urgent_text)) (top_tactics r)"
     and rest: "\<forall>l \<in> set TACTIC_LABELS.
                 1 / 4 < mean_score ranked_env urgent_text l \<and> l \<notin> set (top_tactics r) \<longrightarrow>
                   length (top_tactics r) = 3
                   \<and> (\<forall>t \<in> set (top_tactics r). ranks_before (mean_score ranked_env urgent_text) t l)"
    using top_tactics_ranked [OF urgent_text_valid ranked_env_succeeds] by blast
  have tr: "top_tactics r = [''Fear & Urgency'', ''Identity Attack'', ''Scarcity Illusion'']"
    using tv r by simp
  have "ranks_before (mean_score ranked_env urgent_text) ''Fear & Urgency'' ''Identity Attack''"
    using ranked by (simp add: tr)
  moreover have "ranks_before (mean_score ranked_env urgent_text) ''Scarcity Illusion'' ''Gaslighting''"
    using rest [rule_format, OF l] m(4) by (simp add: tr)
  ultimately show ?thesis
    using tv m l urgent_text_valid ranked_env_succeeds by simp
qed

section \<open>The short-text result\<close>

text \<open>
  C4: for every text that is empty or has fewer than 10 characters after trimming,
  \<^verbatim>\<open>analyze_text\<close> returns the canonical zero result (score 0.0, severity LOW, the six
  tactic scores 0.0, no top tactics, no chunk analysed, word count 0), whatever the
  number of words of the text, and calls no classifier.
\<close>

theorem analyze_text_short:
  assumes "text = [] \<or> length (py_strip text) < 10"
  shows "analyze_text e text =
           (Inr \<lparr>overall_score = 0, severity = ''LOW'', severity_color = ''#22c55e'',
                 tactic_scores =
                   [(''Fear & Urgency'', 0), (''False Social Proof'', 0),
                    (''Identity Attack'', 0), (''Emotional Hijacking'', 0),
                    (''Scarcity Illusion'', 0), (''Gaslighting'', 0)],
                 tactic_colors = TACTIC_COLORS, top_tactics = [],
                 tactic_descriptions = TACTIC_DESCRIPTIONS,
                 chunks_analyzed = 0, word_count = 0\<rparr>, [])"
  using assms by (auto simp: analyze_text_def empty_result_def TACTIC_LABELS_def)

theorem analyze_text_short_witness:
  "length (py_strip ''  a b c d e  '') < 10 \<and> length (py_split ''  a b c d e  '') = 5
     \<and> fst (analyze_text (offline_env 0.9) ''  a b c d e  '') = Inr empty_result
     \<and> word_count empty_result = 0"
  using analyze_text_short [of "''  a b c d e  ''" "offline_env 0.9"]
  by (simp add: py_strip_def py_split_def py_isspace_def whitespace_chars_def
        empty_result_def TACTIC_LABELS_def)

section \<open>Requests with a short text\<close>

text \<open>
  C5 (as stated): each of the three POST endpoints rejects a text of fewer than 10
  trimmed characters with a 4xx response.  \<^verbatim>\<open>/quick-score\<close> has no such check: it returns
  the zero result of \<^verbatim>\<open>analyze_text\<close>.
\<close>

theorem quick_score_accepts_short_text:
  "quick_score (offline_env 0.5) None short_request =
     ((Returned \<lparr>quick_overall_score = 0, quick_severity = ''LOW'',
                 quick_severity_color = ''#22c55e'', quick_top_tactics = []\<rparr>, None), [])"
  by code_simp

text \<open>
  C5 (amended): for every request whose text is empty or has fewer than 10 trimmed
  characters, \<^verbatim>\<open>/analyze\<close> and \<^verbatim>\<open>/report\<close> raise the HTTP error 400 and \<^verbatim>\<open>/quick-score\<close>
  returns the zero result (score 0.0, LOW, no top tactics); none of the three calls the
  classifier, the LLM or the vision model.
\<close>

theorem short_text_endpoints:
  assumes "req_text req = [] \<or> length (py_strip (req_text req)) < 10"
  shows "analyze e client req =
           ((HTTPException 400 ''Text must be at least 10 characters.'', client), [])
       \<and> download_report e client req = ((HTTPException 400 ''Text too short.'', client), [])
       \<and> quick_score e client req =
           ((Returned \<lparr>quick_overall_score = 0, quick_severity = ''LOW'',
                       quick_severity_color = ''#22c55e'', quick_top_tactics = []\<rparr>, client), [])"
proof -
  have "analyze_text e (req_text req) = (Inr empty_result, [])"
    using assms by (auto simp: analyze_text_def)
  then have "quick_score e client req =
           ((Returned \<lparr>quick_overall_score = 0, quick_severity = ''LOW'',
                       quick_severity_color = ''#22c55e'', quick_top_tactics = []\<rparr>, client), [])"
    by (simp add: quick_score_def empty_result_def)
  then show ?thesis using assms by (auto simp: analyze_def download_report_def)
qed

theorem short_text_endpoints_witness:
  "length (py_strip (req_text short_request)) < 10
   \<and> analyze unreachable_env None short_request =
           ((HTTPException 400 ''Text must be at least 10 characters.'', None), [])
   \<and> download_report unreachable_env None short_request =
           ((HTTPException 400 ''Text too short.'', None), [])
   \<and> quick_score unreachable_env None short_request =
           ((Returned \<lparr>quick_overall_score = 0, quick_severity = ''LOW'',
                       quick_severity_color = ''#22c55e'', quick_top_tactics = []\<rparr>, None), [])
   \<and> req_text (short_request\<lparr>req_text := []\<rparr>) = []
   \<and> analyze unreachable_env None (short_request\<lparr>req_text := []\<rparr>) =
           ((HTTPException 400 ''Text must be at least 10 characters.'', None), [])"
proof -
  have "length (py_strip (req_text short_request)) < 10" by code_simp
  then show ?thesis
    using short_text_endpoints [of short_request unreachable_env None]
      short_text_endpoints [of "short_request\<lparr>req_text := []\<rparr>" unreachable_env None]
    by simp
qed

section \<open>The sentence heatmap\<close>

lemma highlight_sentence_text: "h_text (fst (highlight_sentence e sent)) = sent"
  by (simp add: highlight_sentence_def split: sum.splits list.splits)

lemma highlight_sentence_short:
  "length (py_split sent) < 4 \<Longrightarrow>
     fst (highlight_sentence e sent) = \<lparr>h_text = sent, h_score = 0, h_tactic = None\<rparr>"
  by (simp add: highlight_sentence_def)

lemma highlight_sentence_classified:
  assumes "4 \<le> length (py_split sent)" "classifier e sent TACTIC_LABELS False = Inr res"
    and "scores res = top_score # ss" "labels res = top_label # ls"
  shows "fst (highlight_sentence e sent) =
           \<lparr>h_text = sent, h_score = py_round (min 1 (top_score * 1.8)) 3,
            h_tactic = (if 0.3 < top_score then Some top_label else None)\<rparr>"
  using assms by (simp add: highlight_sentence_def)

lemma highlight_sentence_failed:
  assumes "4 \<le> length (py_split sent)"
    and "(\<exists>exc. classifier e sent TACTIC_LABELS False = Inl exc)
         \<or> (\<exists>res. classifier e sent TACTIC_LABELS False = Inr res \<and> (scores res = [] \<or> labels res = []))"
  shows "fst (highlight_sentence e sent) = \<lparr>h_text = sent, h_score = 0, h_tactic = None\<rparr>"
  using assms by (auto simp: highlight_sentence_def split: list.splits)

lemma highlight_sentences_eq:
  "fst (highlight_sentences e text) =
     map (\<lambda>s. fst (highlight_sentence e s)) (take 20 (re_split_sentences (py_strip text)))"
  by (simp add: highlight_sentences_def Let_def comp_def)

text \<open>
  C6 (as stated): for a sentence of four words or more the score is the top single-label
  score times 1.8, capped at 1.0.  The source rounds that value to three decimals: a top
  score of 0.1234 gives 0.222, not 0.22212.
\<close>

theorem highlight_score_is_rounded:
  "map (\<lambda>h. (h_score h, h_score h = min 1 (0.1234 * 1.8)))
     (fst (highlight_sentences (offline_env 0.1234) urgent_text)) = [(0.222, False)]"
  by code_simp

text \<open>
  C6 (amended): for every text \<^verbatim>\<open>highlight_sentences\<close> returns at most 20 items, one for each
  of the first 20 sentences in their order; an item whose sentence has fewer than 4 words
  has score 0.0 and no tactic; for a longer sentence that the classifier answers, the
  score is the top single-label score times 1.8, capped at 1.0 and rounded to three
  decimals, and the top label is attached if and only if the unscaled top score exceeds
  0.3; when the classifier raises, the item has score 0.0 and no tactic.
\<close>

theorem highlight_sentences_items:
  "length (fst (highlight_sentences e text)) \<le> 20
   \<and> map h_text (fst (highlight_sentences e text)) = take 20 (re_split_sentences (py_strip text))
   \<and> (\<forall>h \<in> set (fst (highlight_sentences e text)).
         (length (py_split (h_text h)) < 4 \<longrightarrow> h_score h = 0 \<and> h_tactic h = None)
       \<and> (4 \<le> length (py_split (h_text h)) \<longrightarrow>
            (\<forall>res top_score ss top_label ls.
               classifier e (h_text h) TACTIC_LABELS False = Inr res
               \<and> scores res = top_score # ss \<and> labels res = top_label # ls \<longrightarrow>
                 h_score h = py_round (min 1 (top_score * 1.8)) 3
                 \<and> h_tactic h = (if 0.3 < top_score then Some top_label else None))
          \<and> ((\<exists>exc. classifier e (h_text h) TACTIC_LABELS False = Inl exc) \<longrightarrow>
                 h_score h = 0 \<and> h_tactic h = None)))"
proof (intro conjI ballI)
  let ?sents = "take 20 (re_split_sentences (py_strip text))"
  show "length (fst (highlight_sentences e text)) \<le> 20"
    by (simp add: highlight_sentences_eq)
  show "map h_text (fst (highlight_sentences e text)) = ?sents"
    by (simp add: highlight_sentences_eq comp_def highlight_sentence_text)
  fix h assume "h \<in> set (fst (highlight_sentences e text))"
  then obtain s where h: "h = fst (highlight_sentence e s)"
    by (auto simp: highlight_sentences_eq)
  then have t: "h_text h = s" by (simp add: highlight_sentence_text)
  show "length (py_split (h_text h)) < 4 \<longrightarrow> h_score h = 0 \<and> h_tactic h = None"
    unfolding t using h by (simp add: highlight_sentence_short)
  show "4 \<le> length (py_split (h_text h)) \<longrightarrow>
            (\<forall>res top_score ss top_label ls.
               classifier e (h_text h) TACTIC_LABELS False = Inr res
               \<and> scores res = top_score # ss \<and> labels res = top_label # ls \<longrightarrow>
                 h_score h = py_round (min 1 (top_score * 1.8)) 3
                 \<and> h_tactic h = (if 0.3 < top_score then Some top_label else None))
          \<and> ((\<exists>exc. classifier e (h_text h) TACTIC_LABELS False = Inl exc) \<longrightarrow>
                 h_score h = 0 \<and> h_tactic h = None)"
    unfolding t
  proof (intro impI conjI allI)
    fix res top_score ss top_label ls
    assume "4 \<le> length (py_split s)"
      and "classifier e s TACTIC_LABELS False = Inr res
             \<and> scores res = top_score # ss \<and> labels res = top_label # ls"
    then have "h = \<lparr>h_text = s, h_score = py_round (min 1 (top_score * 1.8)) 3,
                     h_tactic = (if 0.3 < top_score then Some top_label else None)\<rparr>"
      unfolding h by (intro highlight_sentence_classified) auto
    then show "h_score h = py_round (min 1 (top_score * 1.8)) 3"
      and "h_tactic h = (if 0.3 < top_score then Some top_label else None)" by simp_all
  next
    assume "4 \<le> length (py_split s)" "\<exists>exc. classifier e s TACTIC_LABELS False = Inl exc"
    then have "h = \<lparr>h_text = s, h_score = 0, h_tactic = None\<rparr>"
      unfolding h by (intro highlight_sentence_failed) auto
    then show "h_score h = 0" "h_tactic h = None" by simp_all
  qed
qed

theorem highlight_sentences_items_witness:
  "length (py_split ''Ok then.'') < 4 \<and> 4 \<le> length (py_split urgent_text)
     \<and> classifier (offline_env 0.5) urgent_text TACTIC_LABELS False
         = Inr \<lparr>labels = TACTIC_LABELS, scores = [0.5, 0.5, 0.5, 0.5, 0.5, 0.5]\<rparr>
     \<and> fst (highlight_sentences (offline_env 0.5) two_sentences)
         = [\<lparr>h_text = urgent_text, h_score = 0.9, h_tactic = Some ''Fear & Urgency''\<rparr>,
            \<lparr>h_text = ''Ok then.'', h_score = 0, h_tactic = None\<rparr>]
     \<and> classifier deaf_env urgent_text TACTIC_LABELS False = Inl (Exception ''CUDA out of memory'')
     \<and> fst (highlight_sentences deaf_env two_sentences)
         = [\<lparr>h_text = urgent_text, h_score = 0, h_tactic = None\<rparr>,
            \<lparr>h_text = ''Ok then.'', h_score = 0, h_tactic = None\<rparr>]"
proof -
  have a: "length (py_split ''Ok then.'') < 4" "4 \<le> length (py_split urgent_text)" by code_simp+
  have b: "classifier (offline_env 0.5) urgent_text TACTIC_LABELS False
         = Inr \<lparr>labels = TACTIC_LABELS, scores = [0.5, 0.5, 0.5, 0.5, 0.5, 0.5]\<rparr>"
    "classifier deaf_env urgent_text TACTIC_LABELS False = Inl (Exception ''CUDA out of memory'')"
    by (simp_all add: deaf_env_def offline_env_def const_classifier_def TACTIC_LABELS_def)
  have c: "fst (highlight_sentences (offline_env 0.5) two_sentences)
         = [\<lparr>h_text = urgent_text, h_score = 0.9, h_tactic = Some ''Fear & Urgency''\<rparr>,
            \<lparr>h_text = ''Ok then.'', h_score = 0, h_tactic = None\<rparr>]"
    "fst (highlight_sentences deaf_env two_sentences)
         = [\<lparr>h_text = urgent_text, h_score = 0, h_tactic = None\<rparr>,
            \<lparr>h_text = ''Ok then.'', h_score = 0, h_tactic = None\<rparr>]"
    by code_simp+
  show ?thesis
    using highlight_sentences_items [of "offline_env 0.5" two_sentences]
      highlight_sentences_items [of deaf_env two_sentences] a b c
    by simp
qed

section \<open>Parsing the reply of the LLM\<close>












section \<open>Degraded capabilities\<close>

lemma generate_explanation_no_key:
  "ANTHROPIC_API_KEY e = [] \<Longrightarrow>
     generate_explanation e None text a =
       ((\<lparr>success = False,
          full_explanation = ''Set ANTHROPIC_API_KEY environment variable to enable LLM analysis.'',
          sections = []\<rparr>, None), [])"
  by (simp add: generate_explanation_def get_client_def)

lemma generate_explanation_failure:
  assumes "fst (get_client e client) = Some c"
    and "messages_create e c (build_prompt text a) = Inl exc"
  shows "fst (fst (generate_explanation e client text a)) =
           \<lparr>success = False, full_explanation = ''LLM error: '' @ str_exn exc, sections = []\<rparr>"
  using assms by (cases "get_client e client") (simp add: generate_explanation_def Let_def)

lemma multimodal_unavailable:
  assumes "\<not> clip_available e \<or> image_url = []"
  shows "analyze_image_caption e image_url caption = (Unavailable None, [])"
    "analyze_clickbait e image_url = (Unavailable None, [])"
  using assms by (auto simp: analyze_image_caption_def analyze_clickbait_def)

lemma multimodal_fetch_failure:
  assumes "clip_available e" "image_url \<noteq> []" "fetch_image e image_url = Inl exc"
  shows "fst (analyze_image_caption e image_url caption) = Unavailable (Some (str_exn exc))"
    "fst (analyze_clickbait e image_url) = Unavailable (Some (str_exn exc))"
  using assms by (auto simp: analyze_image_caption_def analyze_clickbait_def)

lemma caption_inference_failure:
  assumes "clip_available e" "image_url \<noteq> []" "fetch_image e image_url = Inr img"
    and "clip_probs e [caption, ''image completely unrelated to: '' @ caption] img = Inl exc"
  shows "fst (analyze_image_caption e image_url caption) = Unavailable (Some (str_exn exc))"
  using assms by (simp add: analyze_image_caption_def Let_def)

lemma clickbait_inference_failure:
  assumes "clip_available e" "image_url \<noteq> []" "fetch_image e image_url = Inr img"
    and "clip_probs e clickbait_labels img = Inl exc"
  shows "fst (analyze_clickbait e image_url) = Unavailable (Some (str_exn exc))"
  using assms by (simp add: analyze_clickbait_def Let_def)

lemma caption_short_tensor:
  assumes "clip_available e" "image_url \<noteq> []" "fetch_image e image_url = Inr img"
    and "clip_probs e [caption, ''image completely unrelated to: '' @ caption] img = Inr probs"
    and "length probs < 2"
  shows "\<exists>msg. fst (analyze_image_caption e image_url caption) = Unavailable (Some msg)"
proof -
  have "probs = [] \<or> (\<exists>p. probs = [p])"
    using assms(5) by (cases probs) (auto simp: length_Suc_conv)
  then show ?thesis
    using assms(1-4) by (auto simp: analyze_image_caption_def Let_def)
qed

lemma analyze_returns:
  assumes "analyze_text e (req_text req) = (Inr a, calls)"
    and "req_text req \<noteq> []" "10 \<le> length (py_strip (req_text req))"
  shows "\<exists>resp. fst (fst (analyze e client req)) = Returned resp"
  using assms by (simp add: analyze_def Let_def split_beta)

text \<open>
  C8: a degraded capability is returned as data.  Without a credential (and without a
  client built earlier) \<^verbatim>\<open>generate_explanation\<close> returns success false, the fixed guidance
  message and no sections, and makes no call; when the call to the LLM raises, it
  returns success false with the message of the exception after \<^verbatim>\<open>LLM error: \<close> and no
  sections.  \<^verbatim>\<open>analyze_image_caption\<close> and \<^verbatim>\<open>analyze_clickbait\<close> return available false,
  without a call, when the vision model is unavailable or the image URL is empty, and
  available false with an error message when the fetch or the inference raises, or when
  the tensor of probabilities is too short to index.  The three functions return a value
  in every case, each exception of a collaborator being a branch that yields one, and
  \<^verbatim>\<open>/analyze\<close> returns its response whenever the text classification succeeded.
\<close>

theorem degraded_outcomes_are_data:
  "(ANTHROPIC_API_KEY e = [] \<longrightarrow>
      generate_explanation e None text a =
        ((\<lparr>success = False,
           full_explanation = ''Set ANTHROPIC_API_KEY environment variable to enable LLM analysis.'',
           sections = []\<rparr>, None), []))
   \<and> (\<forall>c exc. fst (get_client e client) = Some c
          \<and> messages_create e c (build_prompt text a) = Inl exc \<longrightarrow>
        fst (fst (generate_explanation e client text a)) =
          \<lparr>success = False, full_explanation = ''LLM error: '' @ str_exn exc, sections = []\<rparr>)
   \<and> (\<not> clip_available e \<or> image_url = [] \<longrightarrow>
        analyze_image_caption e image_url caption = (Unavailable None, [])
        \<and> analyze_clickbait e image_url = (Unavailable None, []))
   \<and> (\<forall>exc. clip_available e \<and> image_url \<noteq> [] \<and> fetch_image e image_url = Inl exc \<longrightarrow>
        fst (analyze_image_caption e image_url caption) = Unavailable (Some (str_exn exc))
        \<and> fst (analyze_clickbait e image_url) = Unavailable (Some (str_exn exc)))
   \<and> (\<forall>img exc. clip_available e \<and> image_url \<noteq> [] \<and> fetch_image e image_url = Inr img
          \<and> clip_probs e [caption, ''image completely unrelated to: '' @ caption] img = Inl exc \<longrightarrow>
        fst (analyze_image_caption e image_url caption) = Unavailable (Some (str_exn exc)))
   \<and> (\<forall>img exc. clip_available e \<and> image_url \<noteq> [] \<and> fetch_image e image_url = Inr img
          \<and> clip_probs e clickbait_labels img = Inl exc \<longrightarrow>
        fst (analyze_clickbait e image_url) = Unavailable (Some (str_exn exc)))
   \<and> (\<forall>img probs. clip_available e \<and> image_url \<noteq> [] \<and> fetch_image e image_url = Inr img
          \<and> clip_probs e [caption, ''image completely unrelated to: '' @ caption] img = Inr probs
          \<and> length probs < 2 \<longrightarrow>
        (\<exists>msg. fst (analyze_image_caption e image_url caption) = Unavailable (Some msg)))
   \<and> (\<forall>a calls. analyze_text e (req_text req) = (Inr a, calls)
          \<and> req_text req \<noteq> [] \<and> 10 \<le> length (py_strip (req_text req)) \<longrightarrow>
        (\<exists>resp. fst (fst (analyze e client req)) = Returned resp))"
  by (auto simp: generate_explanation_no_key generate_explanation_failure multimodal_unavailable
        multimodal_fetch_failure caption_inference_failure clickbait_inference_failure
        caption_short_tensor analyze_returns)


theorem degraded_outcomes_are_data_witness:
  "ANTHROPIC_API_KEY (offline_env 0.5) = []
   \<and> \<not> clip_available (offline_env 0.5)
   \<and> generate_explanation (offline_env 0.5) None urgent_text empty_result =
        ((\<lparr>success = False,
           full_explanation = ''Set ANTHROPIC_API_KEY environment variable to enable LLM analysis.'',
           sections = []\<rparr>, None), [])
   \<and> analyze_image_caption (offline_env 0.5) image_address ''a cat'' = (Unavailable None, [])
   \<and> fst (get_client unreachable_env None) = Some ''sk-test''
   \<and> messages_create unreachable_env ''sk-test'' (build_prompt urgent_text empty_result)
        = Inl (Exception ''connection refused'')
   \<and> fst (fst (generate_explanation unreachable_env None urgent_text empty_result)) =
        \<lparr>success = False, full_explanation = ''LLM error: connection refused'', sections = []\<rparr>
   \<and> clip_available unreachable_env \<and> image_address \<noteq> []
   \<and> fetch_image unreachable_env image_address = Inl (Exception ''connection refused'')
   \<and> fst (analyze_image_caption unreachable_env image_address ''a cat'')
        = Unavailable (Some ''connection refused'')
   \<and> fst (analyze_clickbait unreachable_env image_address)
        = Unavailable (Some ''connection refused'')
   \<and> clip_available broken_clip_env
   \<and> fetch_image broken_clip_env image_address = Inr (Image [])
   \<and> clip_probs broken_clip_env [''a cat'', ''image completely unrelated to: '' @ ''a cat''] (Image [])
        = Inl (Exception ''model not loaded'')
   \<and> clip_probs broken_clip_env clickbait_labels (Image []) = Inl (Exception ''model not loaded'')
   \<and> fst (analyze_image_caption broken_clip_env image_address ''a cat'')
        = Unavailable (Some ''model not loaded'')
   \<and> fst (analyze_clickbait broken_clip_env image_address)
        = Unavailable (Some ''model not loaded'')
   \<and> clip_available short_tensor_env
   \<and> fetch_image short_tensor_env image_address = Inr (Image [])
   \<and> clip_probs short_tensor_env [''a cat'', ''image completely unrelated to: '' @ ''a cat''] (Image [])
        = Inr [1]
   \<and> fst (analyze_image_caption short_tensor_env image_address ''a cat'')
        = Unavailable (Some ''index out of range'')
   \<and> req_text captioned_request \<noteq> [] \<and> 10 \<le> length (py_strip (req_text captioned_request))
   \<and> degraded_parts (analyze unreachable_env None captioned_request)
        = Some (\<lparr>success = False, full_explanation = ''LLM error: connection refused'',
                  sections = []\<rparr>, Unavailable (Some ''connection refused''))"
proof -
  have a: "ANTHROPIC_API_KEY (offline_env 0.5) = []" "\<not> clip_available (offline_env 0.5)"
    by (simp_all add: offline_env_def)
  have b: "fst (get_client unreachable_env None) = Some ''sk-test''"
    "messages_create unreachable_env ''sk-test'' (build_prompt urgent_text empty_result)
        = Inl (Exception ''connection refused'')"
    "clip_available unreachable_env" "image_address \<noteq> []"
    "fetch_image unreachable_env image_address = Inl (Exception ''connection refused'')"
    by (simp_all add: unreachable_env_def offline_env_def get_client_def image_address_def Let_def)
  have c: "clip_available broken_clip_env"
    "fetch_image broken_clip_env image_address = Inr (Image [])"
    "clip_probs broken_clip_env [''a cat'', ''image completely unrelated to: '' @ ''a cat''] (Image [])
        = Inl (Exception ''model not loaded'')"
    "clip_probs broken_clip_env clickbait_labels (Image []) = Inl (Exception ''model not loaded'')"
    by (simp_all add: broken_clip_env_def unreachable_env_def offline_env_def)
  have d: "clip_available short_tensor_env"
    "fetch_image short_tensor_env image_address = Inr (Image [])"
    "clip_probs short_tensor_env [''a cat'', ''image completely unrelated to: '' @ ''a cat''] (Image [])
        = Inr [1]"
    by (simp_all add: short_tensor_env_def broken_clip_env_def unreachable_env_def offline_env_def)
  have f: "fst (analyze_image_caption short_tensor_env image_address ''a cat'')
        = Unavailable (Some ''index out of range'')"
    "req_text captioned_request \<noteq> []" "10 \<le> length (py_strip (req_text captioned_request))"
    "degraded_parts (analyze unreachable_env None captioned_request)
        = Some (\<lparr>success = False, full_explanation = ''LLM error: connection refused'',
                  sections = []\<rparr>, Unavailable (Some ''connection refused''))"
    by code_simp+
  show ?thesis
    using degraded_outcomes_are_data
            [of "offline_env 0.5" urgent_text empty_result None image_address "''a cat''"]
      degraded_outcomes_are_data
            [of unreachable_env urgent_text empty_result None image_address "''a cat''"]
      degraded_outcomes_are_data
            [of broken_clip_env urgent_text empty_result None image_address "''a cat''"]
      degraded_outcomes_are_data
            [of short_tensor_env urgent_text empty_result None image_address "''a cat''" captioned_request]
      a b c d f
    by simp
qed

section \<open>The report\<close>

lemma story_tables_append: "story_tables (xs @ ys) = story_tables xs @ story_tables ys"
  by (induction xs rule: story_tables.induct) simp_all

lemma paragraph_texts_append: "paragraph_texts (xs @ ys) = paragraph_texts xs @ paragraph_texts ys"
  by (induction xs rule: paragraph_texts.induct) simp_all

lemma explanation_block_failed: "\<not> success ex \<Longrightarrow> explanation_block ex = []"
  by (simp add: explanation_block_def)

lemma story_tables_report:
  assumes "\<not> success ex"
  shows "\<exists>ov. story_tables (generate_report e text a ex url) = [ov, tactic_rows (tactic_scores a)]"
  using assms
  by (simp add: generate_report_def Let_def story_tables_append explanation_block_failed)

lemma paragraph_texts_report:
  assumes "\<not> success ex"
  shows "paragraph_texts (generate_report e text a ex url) =
           [''PsychoGuard AI '' @ em_dash @ '' Manipulation Analysis Report'',
            ''Generated '' @ timestamp e, ''Tactic Breakdown'']
           @ (if text \<noteq> [] then [''Analysed Content (excerpt)'',
                                   take 800 text @ (if 800 < length text then ellipsis else [])]
              else [])
           @ (if url \<noteq> [] then [''Source: '' @ url] else [])
           @ [''PsychoGuard AI  '' @ middle_dot @ ''  Protecting minds from digital manipulation  ''
                @ middle_dot @ ''  For research & educational use'']"
  using assms
  by (simp add: generate_report_def Let_def paragraph_texts_append explanation_block_failed)


lemma tactic_rows_shape:
  assumes "map fst ts = TACTIC_LABELS"
  shows "\<exists>rows. tactic_rows ts = [TextCell ''Tactic'', TextCell ''Score'', TextCell ''Risk''] # rows
           \<and> length rows = 6 \<and> map hd rows = map TextCell TACTIC_LABELS"
proof -
  let ?rows = "map (\<lambda>(name, val). [TextCell name, TextCell (format_1f val @ ''/100''),
                                      TextCell (risk_of val)]) ts"
  have "length ts = length TACTIC_LABELS" using arg_cong [OF assms, of length] by simp
  then have "length ?rows = 6" by (simp add: TACTIC_LABELS_def)
  moreover have "map hd ?rows = map TextCell (map fst ts)"
    by (simp add: comp_def split_beta)
  ultimately show ?thesis using assms by (simp add: tactic_rows_def)
qed

text \<open>
  C9 (as stated): the report on the example text with the LLM disabled has an explanation
  section that holds the disabled placeholder text.  The renderer adds the explanation
  only when it succeeded: the paragraphs of the document are the title, the timestamp,
  the heading of the tactic table, the heading of the excerpt, the excerpt and the footer.
\<close>

theorem report_paragraphs_without_llm:
  "paragraph_texts (returned_story (download_report (offline_env 0.5) None report_request)) =
     [''PsychoGuard AI '' @ em_dash @ '' Manipulation Analysis Report'',
      ''Generated January 01, 2025 at 00:00'', ''Tactic Breakdown'',
      ''Analysed Content (excerpt)'', report_text,
      ''PsychoGuard AI  '' @ middle_dot @ ''  Protecting minds from digital manipulation  ''
        @ middle_dot @ ''  For research & educational use'']"
  by code_simp

text \<open>
  C9 (amended): a \<^verbatim>\<open>/report\<close> request on the example text, with no LLM credential and a
  classifier that answers, returns a document whose tactic table has the header row and
  exactly 6 tactic rows, one for each tactic of the fixed set in its order, and which has
  no explanation section: neither its heading nor a placeholder text is a paragraph of
  the document.
\<close>

theorem report_without_llm:
  assumes "req_text req = report_text" "ANTHROPIC_API_KEY e = []"
    and "classifier_succeeds e report_text"
  shows "\<exists>resp calls ov rows.
           download_report e None req = ((Returned resp, None), calls)
         \<and> story_tables (pdf_story resp)
             = [ov, [TextCell ''Tactic'', TextCell ''Score'', TextCell ''Risk''] # rows]
         \<and> length rows = 6 \<and> map hd rows = map TextCell TACTIC_LABELS
         \<and> ''AI Analysis (Claude)'' \<notin> set (paragraph_texts (pdf_story resp))
         \<and> ''Set ANTHROPIC_API_KEY environment variable to enable LLM analysis.''
               \<notin> set (paragraph_texts (pdf_story resp))
         \<and> ''LLM disabled'' \<notin> set (paragraph_texts (pdf_story resp))"
proof -
  let ?ex = "\<lparr>success = False,
              full_explanation = ''Set ANTHROPIC_API_KEY environment variable to enable LLM analysis.'',
              sections = []\<rparr>"
  obtain ss where ss: "fst (classify_chunks e (classified_chunks report_text)) = Inr ss"
    using classify_chunks_succeeds [OF assms(3)] by auto
  obtain r calls where a: "analyze_text e report_text = (Inr r, calls)"
    using analyze_text_valid [OF report_text_valid ss]
    by (cases "analyze_text e report_text") auto
  have "tactic_scores r =
          map (\<lambda>l. (l, py_round (mean_score e report_text l * 100) 1)) TACTIC_LABELS"
    using analyze_text_valid [OF report_text_valid ss] a by auto
  then have keys: "map fst (tactic_scores r) = TACTIC_LABELS" by (simp add: comp_def)
  let ?story = "generate_report e report_text r ?ex (or_empty (req_url req))"
  have ex: "generate_explanation e None report_text r = ((?ex, None), [])"
    using assms(2) by (rule generate_explanation_no_key)
  have resp: "download_report e None req =
          ((Returned \<lparr>pdf_story = ?story, media_type = ''application/pdf'',
                      content_disposition = ''attachment; filename='' @ [CHR 0x22]
                        @ ''psychoguard-report.pdf'' @ [CHR 0x22]\<rparr>, None), calls)"
    using report_text_valid by (simp add: download_report_def assms(1) a ex)
  obtain ov where ov: "story_tables ?story = [ov, tactic_rows (tactic_scores r)]"
    using story_tables_report [of ?ex e report_text r "or_empty (req_url req)"] by auto
  obtain rows where rows:
    "tactic_rows (tactic_scores r) = [TextCell ''Tactic'', TextCell ''Score'', TextCell ''Risk''] # rows"
    "length rows = 6" "map hd rows = map TextCell TACTIC_LABELS"
    using tactic_rows_shape [OF keys] by auto
  have short: "take 800 report_text @ (if 800 < length report_text then ellipsis else []) = report_text"
    by (simp add: report_text_def)
  have texts: "paragraph_texts ?story =
           [''PsychoGuard AI '' @ em_dash @ '' Manipulation Analysis Report'',
            ''Generated '' @ timestamp e, ''Tactic Breakdown'',
            ''Analysed Content (excerpt)'', report_text]
           @ (if or_empty (req_url req) \<noteq> [] then [''Source: '' @ or_empty (req_url req)] else [])
           @ [''PsychoGuard AI  '' @ middle_dot @ ''  Protecting minds from digital manipulation  ''
                @ middle_dot @ ''  For research & educational use'']"
    using report_text_valid(1)
    by (simp add: paragraph_texts_report [of ?ex e report_text r "or_empty (req_url req)"] short)
  have none: "''AI Analysis (Claude)'' \<notin> set (paragraph_texts ?story)"
    "''Set ANTHROPIC_API_KEY environment variable to enable LLM analysis.''
       \<notin> set (paragraph_texts ?story)"
    "''LLM disabled'' \<notin> set (paragraph_texts ?story)"
    unfolding texts by (simp_all add: report_text_def)
  show ?thesis
    unfolding resp using ov rows none by simp
qed

theorem report_without_llm_witness:
  "req_text report_request = report_text \<and> ANTHROPIC_API_KEY (offline_env 0.5) = []
   \<and> classifier_succeeds (offline_env 0.5) report_text
   \<and> map length (story_tables (returned_story (download_report (offline_env 0.5) None report_request)))
        = [2, 7]
   \<and> story_tables (returned_story (download_report (offline_env 0.5) None report_request)) ! 1
        = [[TextCell ''Tactic'', TextCell ''Score'', TextCell ''Risk''],
           [TextCell ''Fear & Urgency'', TextCell ''50.0/100'', TextCell ''MODERATE''],
           [TextCell ''False Social Proof'', TextCell ''50.0/100'', TextCell ''MODERATE''],
           [TextCell ''Identity Attack'', TextCell ''50.0/100'', TextCell ''MODERATE''],
           [TextCell ''Emotional Hijacking'', TextCell ''50.0/100'', TextCell ''MODERATE''],
           [TextCell ''Scarcity Illusion'', TextCell ''50.0/100'', TextCell ''MODERATE''],
           [TextCell ''Gaslighting'', TextCell ''50.0/100'', TextCell ''MODERATE'']]"
proof -
  have a: "req_text report_request = report_text" "ANTHROPIC_API_KEY (offline_env 0.5) = []"
    by (simp_all add: report_request_def short_request_def offline_env_def)
  have b: "classifier_succeeds (offline_env 0.5) report_text" by code_simp
  have c: "map length (story_tables (returned_story (download_report (offline_env 0.5) None report_request)))
        = [2, 7]" by code_simp
  have d: "story_tables (returned_story (download_report (offline_env 0.5) None report_request)) ! 1
        = [[TextCell ''Tactic'', TextCell ''Score'', TextCell ''Risk''],
           [TextCell ''Fear & Urgency'', TextCell ''50.0/100'', TextCell ''MODERATE''],
           [TextCell ''False Social Proof'', TextCell ''50.0/100'', TextCell ''MODERATE''],
           [TextCell ''Identity Attack'', TextCell ''50.0/100'', TextCell ''MODERATE''],
           [TextCell ''Emotional Hijacking'', TextCell ''50.0/100'', TextCell ''MODERATE''],
           [TextCell ''Scarcity Illusion'', TextCell ''50.0/100'', TextCell ''MODERATE''],
           [TextCell ''Gaslighting'', TextCell ''50.0/100'', TextCell ''MODERATE'']]"
    by code_simp
  show ?thesis
    using report_without_llm [OF a b] a b c d by simp
qed

section \<open>Chunking\<close>





end
